theory Spec2Isabelle
  imports Complex_Main "HOL-Library.AList" "HOL-Library.List_Lexorder" "HOL-Library.Char_ord"
begin

section \<open>The OSM routing engine of fun-walk (services/osmRouting)\<close>

text \<open>
  A shallow embedding of \<^verbatim>\<open>OSMRoutingEngine\<close>. JavaScript numbers are modelled as
  real numbers; the value \<^verbatim>\<open>Infinity\<close> is explicit wherever the source writes it
  (type \<open>jsnum\<close>). The rounding of IEEE doubles and the value NaN are outside the model,
  with one exception: the nearest-node scan is decided by the doubles the distance function
  computes, so there the computed distance is an argument of the model, a number or NaN.
  A statement about numbers therefore either names the formula the code evaluates, or
  leaves room for the rounding and is restricted to the inputs on which no distance is
  NaN. A JavaScript \<^verbatim>\<open>Map\<close> is an association list in insertion order (\<^verbatim>\<open>Map.set\<close> is
  \<open>AList.update\<close>: an existing key keeps its position), a \<^verbatim>\<open>Set\<close> of strings is
  a list in insertion order, and a record of string tags is a partial map.

  Three more conventions. \<^verbatim>\<open>toLowerCase\<close> maps the letters A to Z and leaves every other
  character as it is. A lookup in an object literal (\<^verbatim>\<open>pathTypes[highway]\<close>) sees the
  keys of the literal and the members that every object inherits; what a write to such a
  member changes outside the statistics is not modelled. A call that can throw or fail to
  return has a result of type \<open>'a result\<close>; \<^verbatim>\<open>null\<close> is \<open>None\<close>.
\<close>

subsection \<open>JavaScript values\<close>

datatype jsnum = Fin real | Infinity

fun jsnum_less :: "jsnum \<Rightarrow> jsnum \<Rightarrow> bool" where
  "jsnum_less (Fin a) (Fin b) = (a < b)"
| "jsnum_less (Fin a) Infinity = True"
| "jsnum_less Infinity _ = False"

fun jsnum_add :: "jsnum \<Rightarrow> real \<Rightarrow> jsnum" where
  "jsnum_add (Fin a) w = Fin (a + w)"
| "jsnum_add Infinity w = Infinity"

text \<open>\<^verbatim>\<open>x || Infinity\<close> on a looked-up number: \<^verbatim>\<open>undefined\<close> and \<^verbatim>\<open>0\<close> are falsy.\<close>

fun or_Infinity :: "jsnum option \<Rightarrow> jsnum" where
  "or_Infinity None = Infinity"
| "or_Infinity (Some (Fin x)) = (if x = 0 then Infinity else Fin x)"
| "or_Infinity (Some Infinity) = Infinity"

text \<open>\<^verbatim>\<open>x || 0\<close> on a looked-up number.\<close>

fun or_zero :: "jsnum option \<Rightarrow> jsnum" where
  "or_zero None = Fin 0"
| "or_zero (Some (Fin x)) = (if x = 0 then Fin 0 else Fin x)"
| "or_zero (Some Infinity) = Infinity"

text \<open>Truthiness of an optional string: \<^verbatim>\<open>undefined\<close> and the empty string are falsy.\<close>

fun truthy :: "string option \<Rightarrow> bool" where
  "truthy None = False"
| "truthy (Some s) = (s \<noteq> [])"

definition lower_char :: "char \<Rightarrow> char" where
  "lower_char c =
     (case map_of (zip ''ABCDEFGHIJKLMNOPQRSTUVWXYZ'' ''abcdefghijklmnopqrstuvwxyz'') c of
        Some d \<Rightarrow> d
      | None \<Rightarrow> c)"

definition toLowerCase :: "string \<Rightarrow> string" where
  "toLowerCase s = map lower_char s"

fun starts_with :: "string \<Rightarrow> string \<Rightarrow> bool" where
  "starts_with s [] = True"
| "starts_with [] (y # ys) = False"
| "starts_with (x # xs) (y # ys) = (x = y \<and> starts_with xs ys)"

fun str_includes :: "string \<Rightarrow> string \<Rightarrow> bool" where
  "str_includes [] sub = (sub = [])"
| "str_includes (c # cs) sub = (starts_with (c # cs) sub \<or> str_includes cs sub)"

text \<open>\<^verbatim>\<open>Number.prototype.toString\<close> on an integer identifier.\<close>

definition digit_char :: "nat \<Rightarrow> char" where
  "digit_char d = ''0123456789'' ! d"

fun nat_digits :: "nat \<Rightarrow> string" where
  "nat_digits n =
     (if n < 10 then [digit_char n] else nat_digits (n div 10) @ [digit_char (n mod 10)])"

declare nat_digits.simps [simp del]

definition toString :: "int \<Rightarrow> string" where
  "toString i = (if i < 0 then CHR ''-'' # nat_digits (nat (- i)) else nat_digits (nat i))"

subsection \<open>Data model\<close>

record Coordinate =
  lat :: real
  lng :: real

type_synonym tags = "string \<rightharpoonup> string"

record OSMNode =
  n_id :: string
  n_lat :: real
  n_lng :: real
  n_tags :: tags

record OSMWay =
  w_id :: string
  w_nodes :: "string list"
  w_tags :: tags
  w_length :: "real option"
  w_fun_weight :: "real option"

text \<open>An adjacency entry \<^verbatim>\<open>{ nodeId, wayId, distance, fun_weight }\<close>.\<close>

record Connection =
  nodeId :: string
  wayId :: string
  distance :: real
  fun_weight :: real

record OSMGraph =
  nodes :: "(string \<times> OSMNode) list"
  ways :: "(string \<times> OSMWay) list"
  adjacency :: "(string \<times> Connection list) list"

definition node_coord :: "OSMNode \<Rightarrow> Coordinate" where
  "node_coord n = \<lparr>lat = n_lat n, lng = n_lng n\<rparr>"

subsection \<open>Great-circle distance\<close>

text \<open>\<^verbatim>\<open>Math.atan2(y, x)\<close> on reals.\<close>

definition atan2 :: "real \<Rightarrow> real \<Rightarrow> real" where
  "atan2 y x =
     (if 0 < x then arctan (y / x)
      else if x < 0 then (if 0 \<le> y then arctan (y / x) + pi else arctan (y / x) - pi)
      else if 0 < y then pi / 2
      else if y < 0 then - (pi / 2)
      else 0)"

definition haversine_a :: "Coordinate \<Rightarrow> Coordinate \<Rightarrow> real" where
  "haversine_a coord1 coord2 =
     (let dLat = (lat coord2 - lat coord1) * pi / 180;
          dLng = (lng coord2 - lng coord1) * pi / 180
      in sin (dLat / 2) * sin (dLat / 2) +
         cos (lat coord1 * pi / 180) * cos (lat coord2 * pi / 180) *
         sin (dLng / 2) * sin (dLng / 2))"

definition calculateDistance :: "Coordinate \<Rightarrow> Coordinate \<Rightarrow> real" where
  "calculateDistance coord1 coord2 =
     (let R = 6371000;
          a = haversine_a coord1 coord2;
          c = 2 * atan2 (sqrt a) (sqrt (1 - a))
      in R * c)"

subsection \<open>Fun-score model\<close>

definition FUN_HIGHWAYS :: "string set" where
  "FUN_HIGHWAYS = {''footway'', ''path'', ''pedestrian'', ''track'', ''steps'', ''cycleway''}"

definition name_includes :: "tags \<Rightarrow> string \<Rightarrow> bool" where
  "name_includes t sub =
     (case t ''name'' of None \<Rightarrow> False | Some n \<Rightarrow> str_includes (toLowerCase n) sub)"

definition calculateFunWeight :: "OSMWay \<Rightarrow> real \<Rightarrow> real" where
  "calculateFunWeight way len =
     (let t = w_tags way;
          score = 1;
          score = (if (case t ''highway'' of None \<Rightarrow> False
                               | Some highway \<Rightarrow> highway \<noteq> [] \<and> highway \<in> FUN_HIGHWAYS)
                   then score + 2 else score);
          score = (if t ''leisure'' = Some ''park'' then score + 1.5 else score);
          score = (if t ''tourism'' = Some ''viewpoint'' \<or> t ''tourism'' = Some ''attraction''
                   then score + 3 else score);
          score = (if t ''landuse'' = Some ''forest'' \<or> t ''natural'' = Some ''wood''
                   then score + 1.5 else score);
          score = (if truthy (t ''waterway'') \<or> (truthy (t ''name'') \<and> name_includes t ''water'')
                   then score + 1.5 else score);
          score = (if truthy (t ''historic'') then score + 2 else score);
          score = (if t ''scenic'' = Some ''yes'' \<or> name_includes t ''scenic''
                   then score + 2.5 else score)
      in len / score)"

text \<open>
  The interest score as the specification words it: 1.0 plus one independent bonus per
  matching tag group.
\<close>

definition bonus :: "bool \<Rightarrow> real \<Rightarrow> real" where
  "bonus b x = (if b then x else 0)"

definition walking_surface :: "tags \<Rightarrow> bool" where
  "walking_surface t =
     (case t ''highway'' of None \<Rightarrow> False | Some highway \<Rightarrow> highway \<in> FUN_HIGHWAYS)"

definition is_park :: "tags \<Rightarrow> bool" where
  "is_park t = (t ''leisure'' = Some ''park'')"

definition is_viewpoint_or_attraction :: "tags \<Rightarrow> bool" where
  "is_viewpoint_or_attraction t =
     (t ''tourism'' = Some ''viewpoint'' \<or> t ''tourism'' = Some ''attraction'')"

definition is_forest_or_wood :: "tags \<Rightarrow> bool" where
  "is_forest_or_wood t = (t ''landuse'' = Some ''forest'' \<or> t ''natural'' = Some ''wood'')"

definition is_water_feature :: "tags \<Rightarrow> bool" where
  "is_water_feature t = (truthy (t ''waterway'') \<or> name_includes t ''water'')"

definition is_historic :: "tags \<Rightarrow> bool" where
  "is_historic t = truthy (t ''historic'')"

definition is_scenic :: "tags \<Rightarrow> bool" where
  "is_scenic t = (t ''scenic'' = Some ''yes'' \<or> name_includes t ''scenic'')"

definition interest_score :: "tags \<Rightarrow> real" where
  "interest_score t =
     1 + bonus (walking_surface t) 2 + bonus (is_park t) 1.5
       + bonus (is_viewpoint_or_attraction t) 3 + bonus (is_forest_or_wood t) 1.5
       + bonus (is_water_feature t) 1.5 + bonus (is_historic t) 2 + bonus (is_scenic t) 2.5"

subsection \<open>Alternative route\<close>

text \<open>
  \<^verbatim>\<open>Math.random\<close> is a stream \<open>rnd\<close> of reals read at a running position \<open>k\<close>; every
  interior point draws two values.
\<close>

fun alt_map :: "(nat \<Rightarrow> real) \<Rightarrow> nat \<Rightarrow> nat \<Rightarrow> nat \<Rightarrow> Coordinate list \<Rightarrow> Coordinate list" where
  "alt_map rnd n k index [] = []"
| "alt_map rnd n k index (coord # rest) =
     (if index = 0 \<or> int index = int n - 1
      then coord # alt_map rnd n k (index + 1) rest
      else \<lparr>lat = lat coord + (rnd k - 0.5) * 0.001,
            lng = lng coord + (rnd (k + 1) - 0.5) * 0.001\<rparr>
           # alt_map rnd n (k + 2) (index + 1) rest)"

definition createAlternativeRoute :: "(nat \<Rightarrow> real) \<Rightarrow> Coordinate list \<Rightarrow> Coordinate list" where
  "createAlternativeRoute rnd baseCoordinates =
     alt_map rnd (length baseCoordinates) 0 0 baseCoordinates"

subsection \<open>Outcomes of a call\<close>

text \<open>
  A call returns a value, throws (the message of the \<^verbatim>\<open>Error\<close>), or does not return.
\<close>

datatype 'a result = Returns 'a | Throws string | Diverges

fun bind_result :: "'a result \<Rightarrow> ('a \<Rightarrow> 'b result) \<Rightarrow> 'b result" where
  "bind_result (Returns x) f = f x"
| "bind_result (Throws m) f = Throws m"
| "bind_result Diverges f = Diverges"

subsection \<open>Nearest node\<close>

text \<open>
  The scan compares the doubles that \<^verbatim>\<open>calculateDistance\<close> computes, so it is decided by their
  rounding, and a distance can come out as NaN: for two points that are nearly antipodal the
  computed \<^verbatim>\<open>a\<close> exceeds 1 and \<^verbatim>\<open>Math.sqrt(1 - a)\<close> has no value. The computed distance is
  therefore an argument \<open>cd\<close> of the scan, a number or NaN; a comparison with NaN is false.
  \<open>exact_distance\<close> is the distance function without rounding.
\<close>

datatype double = Number real | NaN

definition exact_distance :: "Coordinate \<Rightarrow> Coordinate \<Rightarrow> double" where
  "exact_distance coord1 coord2 = Number (calculateDistance coord1 coord2)"

fun nearest_loop ::
  "(Coordinate \<Rightarrow> Coordinate \<Rightarrow> double) \<Rightarrow> Coordinate \<Rightarrow> (string \<times> OSMNode) list \<Rightarrow>
   string option \<Rightarrow> jsnum \<Rightarrow> string option" where
  "nearest_loop cd coordinate [] nearestNode minDistance = nearestNode"
| "nearest_loop cd coordinate ((nid, node) # rest) nearestNode minDistance =
     (case cd coordinate (node_coord node) of
        Number d \<Rightarrow>
          if jsnum_less (Fin d) minDistance
          then nearest_loop cd coordinate rest (Some nid) (Fin d)
          else nearest_loop cd coordinate rest nearestNode minDistance
      | NaN \<Rightarrow> nearest_loop cd coordinate rest nearestNode minDistance)"

definition findNearestNode ::
  "(Coordinate \<Rightarrow> Coordinate \<Rightarrow> double) \<Rightarrow> OSMGraph \<Rightarrow> Coordinate \<Rightarrow> string option" where
  "findNearestNode cd graph coordinate = nearest_loop cd coordinate (nodes graph) None Infinity"

subsection \<open>Shortest-path search\<close>

type_synonym distances = "(string \<times> jsnum) list"
type_synonym previous = "(string \<times> string option) list"

definition set_add :: "string \<Rightarrow> string list \<Rightarrow> string list" where
  "set_add x xs = (if x \<in> set xs then xs else xs @ [x])"

text \<open>The initialisation loop over \<^verbatim>\<open>graph.nodes.keys()\<close>.\<close>

fun init_search ::
  "string list \<Rightarrow> distances \<Rightarrow> previous \<Rightarrow> string list \<Rightarrow> distances \<times> previous \<times> string list" where
  "init_search [] distances previous unvisited = (distances, previous, unvisited)"
| "init_search (nid # rest) distances previous unvisited =
     init_search rest (AList.update nid Infinity distances)
       (AList.update nid None previous) (set_add nid unvisited)"

text \<open>The scan for the unvisited node with minimum distance.\<close>

fun selectMin :: "distances \<Rightarrow> string list \<Rightarrow> string option \<Rightarrow> jsnum \<Rightarrow> string option \<times> jsnum" where
  "selectMin distances [] currentNode minDist = (currentNode, minDist)"
| "selectMin distances (nid # rest) currentNode minDist =
     (let dist = or_Infinity (map_of distances nid) in
      if jsnum_less dist minDist then selectMin distances rest (Some nid) dist
      else selectMin distances rest currentNode minDist)"

text \<open>The loop over the neighbours of the current node, for a weight selector.\<close>

fun relax ::
  "(Connection \<Rightarrow> real) \<Rightarrow> string \<Rightarrow> string list \<Rightarrow> Connection list \<Rightarrow>
   distances \<Rightarrow> previous \<Rightarrow> distances \<times> previous" where
  "relax weight currentNode unvisited [] distances previous = (distances, previous)"
| "relax weight currentNode unvisited (neighbor # rest) distances previous =
     (if nodeId neighbor \<notin> set unvisited
      then relax weight currentNode unvisited rest distances previous
      else
        (let altDistance = jsnum_add (or_zero (map_of distances currentNode)) (weight neighbor) in
         if jsnum_less altDistance (or_Infinity (map_of distances (nodeId neighbor)))
         then relax weight currentNode unvisited rest
                (AList.update (nodeId neighbor) altDistance distances)
                (AList.update (nodeId neighbor) (Some currentNode) previous)
         else relax weight currentNode unvisited rest distances previous))"

definition neighbors_of :: "OSMGraph \<Rightarrow> string \<Rightarrow> Connection list" where
  "neighbors_of graph currentNode =
     (case map_of (adjacency graph) currentNode of None \<Rightarrow> [] | Some ns \<Rightarrow> ns)"

definition maxIterations :: nat where
  "maxIterations = 50000"

definition length_or_fun :: "bool \<Rightarrow> Connection \<Rightarrow> real" where
  "length_or_fun useLength neighbor = (if useLength then distance neighbor else fun_weight neighbor)"

text \<open>
  The \<^verbatim>\<open>while\<close> loop of \<^verbatim>\<open>findShortestPath\<close>; it returns the predecessor map and
  the iteration counter at exit.
\<close>

function shortest_loop ::
  "OSMGraph \<Rightarrow> string \<Rightarrow> bool \<Rightarrow> distances \<Rightarrow> previous \<Rightarrow> string list \<Rightarrow> nat \<Rightarrow> previous \<times> nat" where
  "shortest_loop graph endNodeId useLength distances previous unvisited iterations =
     (if unvisited \<noteq> [] \<and> iterations < maxIterations then
        (case selectMin distances unvisited None Infinity of
           (None, minDist) \<Rightarrow> (previous, iterations + 1)
         | (Some currentNode, minDist) \<Rightarrow>
             if currentNode = [] \<or> minDist = Infinity then (previous, iterations + 1)
             else if currentNode = endNodeId then (previous, iterations + 1)
             else
               (case relax (length_or_fun useLength) currentNode
                       (removeAll currentNode unvisited) (neighbors_of graph currentNode)
                       distances previous of
                  (distances', previous') \<Rightarrow>
                    shortest_loop graph endNodeId useLength distances' previous'
                      (removeAll currentNode unvisited) (iterations + 1)))
      else (previous, iterations))"
  by pat_completeness auto
termination
  by (relation "measure (\<lambda>(graph, endNodeId, useLength, distances, previous, unvisited, iterations).
        maxIterations - iterations)") auto

declare shortest_loop.simps [simp del]

text \<open>\<^verbatim>\<open>previous.get(current) || null\<close>.\<close>

fun or_null :: "string option option \<Rightarrow> string option" where
  "or_null None = None"
| "or_null (Some None) = None"
| "or_null (Some (Some s)) = (if s = [] then None else Some s)"

text \<open>The path reconstruction loop; \<open>None\<close> when it does not end.\<close>

partial_function (option) reconstruct ::
  "previous \<Rightarrow> string option \<Rightarrow> string list \<Rightarrow> string list option" where
  "reconstruct previous current path =
     (case current of
        None \<Rightarrow> Some path
      | Some c \<Rightarrow> reconstruct previous (or_null (map_of previous c)) (c # path))"

definition reconstruct_path :: "previous \<Rightarrow> string \<Rightarrow> string list option result" where
  "reconstruct_path previous endNodeId =
     (if map_of previous endNodeId = None \<or> map_of previous endNodeId = Some None
      then Returns None
      else (case reconstruct previous (Some endNodeId) [] of
              None \<Rightarrow> Diverges
            | Some path \<Rightarrow> Returns (Some path)))"

definition no_connections :: "Connection list option \<Rightarrow> bool" where
  "no_connections cs = (cs = None \<or> cs = Some [])"

definition findShortestPath ::
  "OSMGraph \<Rightarrow> string \<Rightarrow> string \<Rightarrow> bool \<Rightarrow> string list option result" where
  "findShortestPath graph startNodeId endNodeId useLength =
     (if map_of (nodes graph) startNodeId = None then Returns None
      else if map_of (nodes graph) endNodeId = None then Returns None
      else if no_connections (map_of (adjacency graph) startNodeId) then Returns None
      else if no_connections (map_of (adjacency graph) endNodeId) then Returns None
      else
        (case init_search (map fst (nodes graph)) [] [] [] of
           (distances, previous, unvisited) \<Rightarrow>
             (case shortest_loop graph endNodeId useLength
                     (AList.update startNodeId (Fin 0) distances) previous unvisited 0 of
                (previous', iterations) \<Rightarrow> reconstruct_path previous' endNodeId)))"

definition balanced_weight :: "Connection \<Rightarrow> real" where
  "balanced_weight neighbor = distance neighbor * 0.7 + fun_weight neighbor * 0.3"

text \<open>The \<^verbatim>\<open>while\<close> loop of \<^verbatim>\<open>findBalancedPath\<close>, which has no iteration counter.\<close>

function balanced_loop ::
  "OSMGraph \<Rightarrow> string \<Rightarrow> distances \<Rightarrow> previous \<Rightarrow> string list \<Rightarrow> previous" where
  "balanced_loop graph endNodeId distances previous unvisited =
     (if unvisited \<noteq> [] then
        (case selectMin distances unvisited None Infinity of
           (None, minDist) \<Rightarrow> previous
         | (Some currentNode, minDist) \<Rightarrow>
             if currentNode = [] \<or> minDist = Infinity then previous
             else if currentNode = endNodeId then previous
             else
               (case relax balanced_weight currentNode
                       (removeAll currentNode unvisited) (neighbors_of graph currentNode)
                       distances previous of
                  (distances', previous') \<Rightarrow>
                    balanced_loop graph endNodeId distances' previous'
                      (removeAll currentNode unvisited)))
      else previous)"
  by pat_completeness auto
termination
proof (relation "measure (\<lambda>(graph, endNodeId, distances, previous, unvisited). length unvisited)")
  show "wf (measure (\<lambda>(graph, endNodeId, distances, previous, unvisited). length unvisited))"
    by simp
next
  fix graph :: OSMGraph and endNodeId :: string and distances :: distances
    and previous :: previous and unvisited :: "string list"
    and x :: "string option" and minDist :: jsnum and currentNode :: string
    and distances' :: distances and previous' :: previous
  assume sel: "(x, minDist) = selectMin distances unvisited None Infinity"
    and c: "x = Some currentNode"
  have mem: "\<And>cur m r mm. selectMin distances us cur m = (Some r, mm) \<Longrightarrow>
               cur = Some r \<or> r \<in> set us" for us
  proof (induction us)
    case Nil
    then show ?case by simp
  next
    case (Cons u us)
    then show ?case
      by (auto simp: Let_def split: if_splits dest: Cons.IH)
  qed
  from sel c have "selectMin distances unvisited None Infinity = (Some currentNode, minDist)"
    by simp
  from mem [OF this] have "currentNode \<in> set unvisited" by simp
  then have "length (removeAll currentNode unvisited) < length unvisited"
    by (simp add: length_removeAll_less)
  then show "((graph, endNodeId, distances', previous', removeAll currentNode unvisited),
              (graph, endNodeId, distances, previous, unvisited))
             \<in> measure (\<lambda>(graph, endNodeId, distances, previous, unvisited). length unvisited)"
    by simp
qed

declare balanced_loop.simps [simp del]

definition findBalancedPath :: "OSMGraph \<Rightarrow> string \<Rightarrow> string \<Rightarrow> string list option result" where
  "findBalancedPath graph startNodeId endNodeId =
     (case init_search (map fst (nodes graph)) [] [] [] of
        (distances, previous, unvisited) \<Rightarrow>
          reconstruct_path
            (balanced_loop graph endNodeId (AList.update startNodeId (Fin 0) distances)
               previous unvisited)
            endNodeId)"

subsection \<open>Route statistics\<close>

record PathTypeStats =
  pt_distance :: real
  pt_time :: real
  pt_speed :: real
  pt_description :: string

record SurfaceTypeStats =
  su_distance :: real
  su_time :: real
  su_speed_modifier :: real
  su_description :: string

record SpecialAreaStats =
  sa_distance :: real
  sa_time :: real
  sa_description :: string

record RouteSegment =
  seg_length :: real
  seg_time :: real
  seg_path_type :: string
  seg_surface_type :: string
  seg_speed :: real
  seg_features :: "string list"
  seg_name :: string

record RouteStats =
  st_distance :: real
  st_fun_weight :: real
  fun_score :: jsnum
  estimated_time :: real
  waypoints :: nat
  path_types :: "(string \<times> PathTypeStats) list"
  surface_types :: "(string \<times> SurfaceTypeStats) list"
  special_areas :: "(string \<times> SpecialAreaStats) list"
  segments :: "RouteSegment list"
  avg_speed :: real

definition initial_path_types :: "(string \<times> PathTypeStats) list" where
  "initial_path_types =
     [(''footway'', \<lparr>pt_distance = 0, pt_time = 0, pt_speed = 4.5,
                     pt_description = ''Dedicated walkways''\<rparr>),
      (''path'', \<lparr>pt_distance = 0, pt_time = 0, pt_speed = 4.0,
                  pt_description = ''Natural trails and paths''\<rparr>),
      (''track'', \<lparr>pt_distance = 0, pt_time = 0, pt_speed = 3.5,
                   pt_description = ''Forest trails and dirt roads''\<rparr>),
      (''steps'', \<lparr>pt_distance = 0, pt_time = 0, pt_speed = 2.5,
                   pt_description = ''Stairs and stepped paths''\<rparr>),
      (''residential'', \<lparr>pt_distance = 0, pt_time = 0, pt_speed = 4.8,
                         pt_description = ''Residential streets''\<rparr>),
      (''other'', \<lparr>pt_distance = 0, pt_time = 0, pt_speed = 4.0,
                   pt_description = ''Other walkable paths''\<rparr>)]"

definition add_path_type ::
  "string \<Rightarrow> real \<Rightarrow> (string \<times> PathTypeStats) list \<Rightarrow> (string \<times> PathTypeStats) list" where
  "add_path_type pathType segmentDistance pathTypes =
     (case map_of pathTypes pathType of
        None \<Rightarrow> pathTypes
      | Some pt \<Rightarrow>
          AList.update pathType
            (pt\<lparr>pt_distance := pt_distance pt + segmentDistance,
                pt_time := pt_time pt + segmentDistance / 1000 * (60 / pt_speed pt)\<rparr>)
            pathTypes)"

definition add_special_area ::
  "string \<Rightarrow> string \<Rightarrow> real \<Rightarrow> real \<Rightarrow> (string \<times> SpecialAreaStats) list \<Rightarrow>
   (string \<times> SpecialAreaStats) list" where
  "add_special_area area descr speed segmentDistance specialAreas =
     (let sa = (case map_of specialAreas area of
                  None \<Rightarrow> \<lparr>sa_distance = 0, sa_time = 0, sa_description = descr\<rparr>
                | Some sa \<Rightarrow> sa)
      in AList.update area
           (sa\<lparr>sa_distance := sa_distance sa + segmentDistance,
               sa_time := sa_time sa + segmentDistance / 1000 * (60 / speed)\<rparr>)
           specialAreas)"

type_synonym stats_acc =
  "real \<times> real \<times> (string \<times> PathTypeStats) list \<times> (string \<times> SpecialAreaStats) list"

text \<open>
  The lookup \<^verbatim>\<open>pathTypes[highway]\<close> also finds the members that every object inherits: for a
  highway value that names one of them the lookup is truthy, the segment is booked on the
  inherited member and under no path type.
\<close>

definition inherited_members :: "string list" where
  "inherited_members =
     [''constructor'', ''__defineGetter__'', ''__defineSetter__'', ''hasOwnProperty'',
      ''__lookupGetter__'', ''__lookupSetter__'', ''isPrototypeOf'', ''propertyIsEnumerable'',
      ''toString'', ''valueOf'', ''__proto__'', ''toLocaleString'']"

definition analyse_way ::
  "OSMWay \<Rightarrow> real \<Rightarrow> (string \<times> PathTypeStats) list \<times> (string \<times> SpecialAreaStats) list \<Rightarrow>
   (string \<times> PathTypeStats) list \<times> (string \<times> SpecialAreaStats) list" where
  "analyse_way way segmentDistance acc =
     (case acc of (pathTypes, specialAreas) \<Rightarrow>
        (let highway = (case w_tags way ''highway'' of
                          None \<Rightarrow> ''other''
                        | Some h \<Rightarrow> if h = [] then ''other'' else h);
             pathType = (if map_of pathTypes highway \<noteq> None \<or> highway \<in> set inherited_members
                         then highway else ''other'');
             pathTypes = (if map_of pathTypes pathType \<noteq> None
                          then add_path_type pathType segmentDistance pathTypes
                          else pathTypes);
             specialAreas =
               (if w_tags way ''leisure'' = Some ''park''
                then add_special_area ''park'' ''Parks and green areas'' 4.0
                       segmentDistance specialAreas
                else specialAreas);
             specialAreas =
               (if w_tags way ''landuse'' = Some ''forest'' \<or> w_tags way ''natural'' = Some ''wood''
                then add_special_area ''forest'' ''Forests and wooded areas'' 3.5
                       segmentDistance specialAreas
                else specialAreas)
         in (pathTypes, specialAreas)))"

text \<open>One round of the loop over consecutive path nodes.\<close>

definition stats_step :: "OSMGraph \<Rightarrow> string \<Rightarrow> string \<Rightarrow> stats_acc \<Rightarrow> stats_acc" where
  "stats_step graph a b acc =
     (case acc of (totalDistance, totalFunWeight, pathTypes, specialAreas) \<Rightarrow>
        (case (map_of (nodes graph) a, map_of (nodes graph) b) of
           (Some node1, Some node2) \<Rightarrow>
             (let segmentDistance = calculateDistance (node_coord node1) (node_coord node2);
                  totalDistance = totalDistance + segmentDistance
              in case find (\<lambda>n. nodeId n = b) (neighbors_of graph a) of
                   None \<Rightarrow> (totalDistance, totalFunWeight, pathTypes, specialAreas)
                 | Some connection \<Rightarrow>
                     (case map_of (ways graph) (wayId connection) of
                        None \<Rightarrow>
                          (totalDistance, totalFunWeight + fun_weight connection,
                           pathTypes, specialAreas)
                      | Some way \<Rightarrow>
                          (case analyse_way way segmentDistance (pathTypes, specialAreas) of
                             (pathTypes', specialAreas') \<Rightarrow>
                               (totalDistance, totalFunWeight + fun_weight connection,
                                pathTypes', specialAreas'))))
         | _ \<Rightarrow> acc))"

fun stats_loop :: "OSMGraph \<Rightarrow> string list \<Rightarrow> stats_acc \<Rightarrow> stats_acc" where
  "stats_loop graph (a # b # rest) acc = stats_loop graph (b # rest) (stats_step graph a b acc)"
| "stats_loop graph [a] acc = acc"
| "stats_loop graph [] acc = acc"

definition calculateRouteStats :: "OSMGraph \<Rightarrow> string list \<Rightarrow> RouteStats" where
  "calculateRouteStats graph path =
     (case stats_loop graph path (0, 0, initial_path_types, []) of
        (totalDistance, totalFunWeight, pathTypes, specialAreas) \<Rightarrow>
          (let estimatedTime = totalDistance / 1000 * (60 / 4.2);
               funScore = (if 0 < totalDistance
                           then (if totalFunWeight = 0 then Infinity
                                 else Fin (totalDistance / totalFunWeight))
                           else Fin 1)
           in \<lparr>st_distance = totalDistance,
               st_fun_weight = totalFunWeight,
               fun_score = funScore,
               estimated_time = estimatedTime,
               waypoints = length path,
               path_types = pathTypes,
               surface_types =
                 [(''unknown'', \<lparr>su_distance = totalDistance, su_time = estimatedTime,
                                  su_speed_modifier = 1.0, su_description = ''Mixed surfaces''\<rparr>)],
               special_areas = specialAreas,
               segments = [],
               avg_speed = (if 0 < totalDistance
                            then (totalDistance / 1000) / (estimatedTime / 60) else 4.2)\<rparr>))"

text \<open>
  The totals of a path as the specification words them: the great-circle distances
  between consecutive nodes of the path, and the fun-weights of the connections taken.
\<close>

fun path_distance :: "OSMGraph \<Rightarrow> string list \<Rightarrow> real" where
  "path_distance graph (a # b # rest) =
     (case (map_of (nodes graph) a, map_of (nodes graph) b) of
        (Some node1, Some node2) \<Rightarrow> calculateDistance (node_coord node1) (node_coord node2)
      | _ \<Rightarrow> 0)
     + path_distance graph (b # rest)"
| "path_distance graph [a] = 0"
| "path_distance graph [] = 0"

fun path_fun_weight :: "OSMGraph \<Rightarrow> string list \<Rightarrow> real" where
  "path_fun_weight graph (a # b # rest) =
     (case (map_of (nodes graph) a, map_of (nodes graph) b) of
        (Some node1, Some node2) \<Rightarrow>
          (case find (\<lambda>n. nodeId n = b) (neighbors_of graph a) of
             None \<Rightarrow> 0
           | Some connection \<Rightarrow> fun_weight connection)
      | _ \<Rightarrow> 0)
     + path_fun_weight graph (b # rest)"
| "path_fun_weight graph [a] = 0"
| "path_fun_weight graph [] = 0"

subsection \<open>Routes\<close>

record RouteResult =
  r_name :: string
  r_description :: string
  coordinates :: "Coordinate list"
  stats :: RouteStats
  color :: string
  priority :: string

text \<open>
  \<^verbatim>\<open>path.map(nodeId => graph.nodes.get(nodeId)!)\<close> followed by the read of
  \<^verbatim>\<open>node.lat\<close>: a missing node is a \<^verbatim>\<open>TypeError\<close>.
\<close>

fun path_coordinates :: "OSMGraph \<Rightarrow> string list \<Rightarrow> Coordinate list result" where
  "path_coordinates graph [] = Returns []"
| "path_coordinates graph (p # ps) =
     (case map_of (nodes graph) p of
        None \<Rightarrow> Throws ''TypeError''
      | Some node \<Rightarrow>
          (case path_coordinates graph ps of
             Returns cs \<Rightarrow> Returns (node_coord node # cs)
           | Throws m \<Rightarrow> Throws m
           | Diverges \<Rightarrow> Diverges))"

definition findNearbyNodes :: "OSMGraph \<Rightarrow> Coordinate \<Rightarrow> nat \<Rightarrow> (string \<times> real) list" where
  "findNearbyNodes graph coordinate count =
     take count
       (filter (\<lambda>(nid, d). \<not> no_connections (map_of (adjacency graph) nid))
          (sort_key snd
             (map (\<lambda>(nid, node). (nid, calculateDistance coordinate (node_coord node)))
                (nodes graph))))"

text \<open>The nested loops of \<^verbatim>\<open>createSimpleRoute\<close> over the pairs of nearby nodes.\<close>

fun simple_route_loop ::
  "OSMGraph \<Rightarrow> Coordinate \<Rightarrow> Coordinate \<Rightarrow> (string \<times> string) list \<Rightarrow> RouteResult option result" where
  "simple_route_loop graph start endp [] = Returns None"
| "simple_route_loop graph start endp ((startNode, endNode) # rest) =
     (case findShortestPath graph startNode endNode True of
        Diverges \<Rightarrow> Diverges
      | Throws m \<Rightarrow> Throws m
      | Returns None \<Rightarrow> simple_route_loop graph start endp rest
      | Returns (Some path) \<Rightarrow>
          if 1 < length path then
            (case path_coordinates graph path of
               Diverges \<Rightarrow> Diverges
             | Throws m \<Rightarrow> Throws m
             | Returns cs \<Rightarrow>
                 Returns (Some \<lparr>r_name = ''SIMPLE'', r_description = ''Simple walking route'',
                                coordinates = [start] @ cs @ [endp],
                                stats = calculateRouteStats graph path,
                                color = ''#888888'', priority = ''speed''\<rparr>))
          else simple_route_loop graph start endp rest)"

definition createSimpleRoute :: "OSMGraph \<Rightarrow> Coordinate \<Rightarrow> Coordinate \<Rightarrow> RouteResult option result" where
  "createSimpleRoute graph start endp =
     (let nearbyStartNodes = findNearbyNodes graph start 5;
          nearbyEndNodes = findNearbyNodes graph endp 5
      in simple_route_loop graph start endp
           (List.product (map fst nearbyStartNodes) (map fst nearbyEndNodes)))"

definition createFallbackGraph :: "Coordinate \<Rightarrow> Coordinate \<Rightarrow> OSMGraph" where
  "createFallbackGraph start endp =
     (let d = calculateDistance start endp in
      \<lparr>nodes = [(''start'', \<lparr>n_id = ''start'', n_lat = lat start, n_lng = lng start,
                              n_tags = Map.empty\<rparr>),
                 (''end'', \<lparr>n_id = ''end'', n_lat = lat endp, n_lng = lng endp,
                            n_tags = Map.empty\<rparr>)],
        ways = [(''direct'', \<lparr>w_id = ''direct'', w_nodes = [''start'', ''end''],
                               w_tags = [''highway'' \<mapsto> ''path''], w_length = Some d,
                               w_fun_weight = None\<rparr>)],
        adjacency =
          [(''start'', [\<lparr>nodeId = ''end'', wayId = ''direct'', distance = d, fun_weight = d\<rparr>]),
           (''end'', [\<lparr>nodeId = ''start'', wayId = ''direct'', distance = d, fun_weight = d\<rparr>])]\<rparr>)"

definition createFallbackRoutes :: "Coordinate \<Rightarrow> Coordinate \<Rightarrow> RouteResult list" where
  "createFallbackRoutes start endp =
     (let directDistance = calculateDistance start endp;
          estimatedTime = directDistance / 1000 * (60 / 4.2);
          baseStats =
            \<lparr>st_distance = directDistance,
             st_fun_weight = directDistance,
             fun_score = Fin 1,
             estimated_time = estimatedTime,
             waypoints = 2,
             path_types =
               [(''other'', \<lparr>pt_distance = directDistance, pt_time = estimatedTime,
                              pt_speed = 4.2, pt_description = ''Direct route''\<rparr>)],
             surface_types =
               [(''unknown'', \<lparr>su_distance = directDistance, su_time = estimatedTime,
                                su_speed_modifier = 1.0, su_description = ''Unknown surface''\<rparr>)],
             special_areas = [],
             segments = [],
             avg_speed = 4.2\<rparr>
      in [\<lparr>r_name = ''DIRECT'', r_description = ''Direct route (limited data)'',
           coordinates = [start, endp], stats = baseStats,
           color = ''#888888'', priority = ''speed''\<rparr>])"

subsection \<open>Graph builder\<close>

record OverpassElement =
  e_id :: int
  e_type :: string
  e_lat :: "real option"
  e_lon :: "real option"
  e_nodes :: "int list option"
  e_tags :: "tags option"

text \<open>First pass: the nodes with coordinates.\<close>

definition add_node ::
  "(string \<times> OSMNode) list \<Rightarrow> OverpassElement \<Rightarrow> (string \<times> OSMNode) list" where
  "add_node ns element =
     (case (e_lat element, e_lon element) of
        (Some la, Some lo) \<Rightarrow>
          if e_type element = ''node''
          then AList.update (toString (e_id element))
                 \<lparr>n_id = toString (e_id element), n_lat = la, n_lng = lo,
                  n_tags = (case e_tags element of None \<Rightarrow> Map.empty | Some t \<Rightarrow> t)\<rparr> ns
          else ns
      | _ \<Rightarrow> ns)"

text \<open>The length of a way: the distances between its consecutive nodes, summed.\<close>

fun way_length :: "(string \<times> OSMNode) list \<Rightarrow> string list \<Rightarrow> real" where
  "way_length ns (a # b # rest) =
     (case (map_of ns a, map_of ns b) of
        (Some node1, Some node2) \<Rightarrow> calculateDistance (node_coord node1) (node_coord node2)
      | _ \<Rightarrow> 0)
     + way_length ns (b # rest)"
| "way_length ns [a] = 0"
| "way_length ns [] = 0"

text \<open>Second pass: a way element becomes a walkable way, or is skipped.\<close>

definition collect_way :: "(string \<times> OSMNode) list \<Rightarrow> OverpassElement \<Rightarrow> OSMWay option" where
  "collect_way ns element =
     (case e_nodes element of
        None \<Rightarrow> None
      | Some element_nodes \<Rightarrow>
          if e_type element = ''way'' \<and> 1 < length element_nodes then
            (let wayTags = (case e_tags element of None \<Rightarrow> Map.empty | Some t \<Rightarrow> t);
                 highway = wayTags ''highway''
             in if wayTags ''foot'' = Some ''no'' \<or> wayTags ''access'' = Some ''private'' then None
                else if highway = Some ''motorway'' \<or> highway = Some ''trunk'' \<or>
                        highway = Some ''motorway_link'' \<or> highway = Some ''trunk_link'' then None
                else
                  (let wayNodes = map toString element_nodes;
                       validNodes = filter (\<lambda>n. map_of ns n \<noteq> None) wayNodes
                   in if length validNodes < 2 then None
                      else
                        (let totalLength = way_length ns validNodes
                         in if totalLength < 1 then None
                            else Some \<lparr>w_id = toString (e_id element), w_nodes = validNodes,
                                       w_tags = wayTags, w_length = Some totalLength,
                                       w_fun_weight = None\<rparr>)))
          else None)"

text \<open>
  Modelled from the spec: \<^verbatim>\<open>detectAndReclassifyAdjacentPaths(tempWays, nodes)\<close> is called by
  \<^verbatim>\<open>buildGraph\<close> but its body is not part of the sources. The specification says that it
  reclassifies a footway, path or track that runs along a vehicle road; which ways it
  picks and the tags it leaves on them are the parameter \<open>reclassify\<close>, which gives every
  way its tags after the pass.
\<close>

definition detectAndReclassifyAdjacentPaths ::
  "(OSMWay list \<Rightarrow> (string \<times> OSMNode) list \<Rightarrow> OSMWay \<Rightarrow> tags) \<Rightarrow>
   OSMWay list \<Rightarrow> (string \<times> OSMNode) list \<Rightarrow> OSMWay list" where
  "detectAndReclassifyAdjacentPaths reclassify tempWays ns =
     map (\<lambda>way. way\<lparr>w_tags := reclassify tempWays ns way\<rparr>) tempWays"

type_synonym adjacency = "(string \<times> Connection list) list"

definition ensure_key :: "string \<Rightarrow> adjacency \<Rightarrow> adjacency" where
  "ensure_key k adj = (if map_of adj k = None then AList.update k [] adj else adj)"

definition push_connection :: "string \<Rightarrow> Connection \<Rightarrow> adjacency \<Rightarrow> adjacency" where
  "push_connection k c adj =
     (case map_of adj k of None \<Rightarrow> adj | Some cs \<Rightarrow> AList.update k (cs @ [c]) adj)"

text \<open>One segment of a way: both directions are entered.\<close>

definition add_segment ::
  "(string \<times> OSMNode) list \<Rightarrow> string \<Rightarrow> real \<Rightarrow> real \<Rightarrow> string \<Rightarrow> string \<Rightarrow> adjacency \<Rightarrow> adjacency" where
  "add_segment ns way_id way_fun_weight way_len nodeId1 nodeId2 adj =
     (case (map_of ns nodeId1, map_of ns nodeId2) of
        (Some node1, Some node2) \<Rightarrow>
          (let segmentDistance = calculateDistance (node_coord node1) (node_coord node2);
               segmentFunWeight =
                 (if way_fun_weight = 0 then segmentDistance else way_fun_weight)
                 * (segmentDistance / way_len);
               adj = ensure_key nodeId1 adj;
               adj = ensure_key nodeId2 adj;
               adj = push_connection nodeId1
                       \<lparr>nodeId = nodeId2, wayId = way_id, distance = segmentDistance,
                        fun_weight = segmentFunWeight\<rparr> adj
           in push_connection nodeId2
                \<lparr>nodeId = nodeId1, wayId = way_id, distance = segmentDistance,
                 fun_weight = segmentFunWeight\<rparr> adj)
      | _ \<Rightarrow> adj)"

fun add_segments ::
  "(string \<times> OSMNode) list \<Rightarrow> string \<Rightarrow> real \<Rightarrow> real \<Rightarrow> string list \<Rightarrow> adjacency \<Rightarrow> adjacency" where
  "add_segments ns way_id way_fun_weight way_len (a # b # rest) adj =
     add_segments ns way_id way_fun_weight way_len (b # rest)
       (add_segment ns way_id way_fun_weight way_len a b adj)"
| "add_segments ns way_id way_fun_weight way_len [a] adj = adj"
| "add_segments ns way_id way_fun_weight way_len [] adj = adj"

text \<open>
  Third pass, one way: its fun-weight is computed from the tags it carries after the
  reclassification, it is stored, and its segments are entered. Every way of the second
  pass carries its length.
\<close>

definition process_way ::
  "(string \<times> OSMNode) list \<Rightarrow> (string \<times> OSMWay) list \<times> adjacency \<Rightarrow> OSMWay \<Rightarrow>
   (string \<times> OSMWay) list \<times> adjacency" where
  "process_way ns acc way =
     (case acc of (ws, adj) \<Rightarrow>
        (case w_length way of
           None \<Rightarrow> (ws, adj)
         | Some len \<Rightarrow>
             (let fw = calculateFunWeight way len;
                  way = way\<lparr>w_fun_weight := Some fw\<rparr>
              in (AList.update (w_id way) way ws,
                  add_segments ns (w_id way) fw len (w_nodes way) adj))))"

text \<open>Pruning: the nodes that have connections, and the connections between them.\<close>

definition connect_node ::
  "(string \<times> OSMNode) list \<Rightarrow> (string \<times> OSMNode) list \<Rightarrow> string \<times> Connection list \<Rightarrow>
   (string \<times> OSMNode) list" where
  "connect_node ns connectedNodes entry =
     (case entry of (nid, connections) \<Rightarrow>
        if connections \<noteq> [] then
          (case map_of ns nid of
             None \<Rightarrow> connectedNodes
           | Some node \<Rightarrow> AList.update nid node connectedNodes)
        else connectedNodes)"

definition keep_connections ::
  "(string \<times> OSMNode) list \<Rightarrow> adjacency \<Rightarrow> string \<times> Connection list \<Rightarrow> adjacency" where
  "keep_connections connectedNodes finalAdjacency entry =
     (case entry of (nid, connections) \<Rightarrow>
        if map_of connectedNodes nid \<noteq> None then
          (let validConnections =
                 filter (\<lambda>conn. map_of connectedNodes (nodeId conn) \<noteq> None) connections
           in if validConnections \<noteq> [] then AList.update nid validConnections finalAdjacency
              else finalAdjacency)
        else finalAdjacency)"

definition buildGraph ::
  "(OSMWay list \<Rightarrow> (string \<times> OSMNode) list \<Rightarrow> OSMWay \<Rightarrow> tags) \<Rightarrow> OverpassElement list \<Rightarrow> OSMGraph" where
  "buildGraph reclassify elements =
     (let ns = foldl add_node [] elements;
          tempWays = List.map_filter (collect_way ns) elements;
          tempWays = detectAndReclassifyAdjacentPaths reclassify tempWays ns;
          (ws, adj) = foldl (process_way ns) ([], []) tempWays;
          connectedNodes = foldl (connect_node ns) [] adj;
          finalAdjacency = foldl (keep_connections connectedNodes) [] adj
      in \<lparr>nodes = connectedNodes, ways = ws, adjacency = finalAdjacency\<rparr>)"

subsection \<open>Fetching the network and computing the routes\<close>

text \<open>
  What the request to the map-data provider comes to: it fails (a transport error, the
  ten-second timeout, a status that is not ok), or it delivers the elements.
\<close>

datatype fetch_outcome = FetchFailed | FetchOk "OverpassElement list"

definition fetchWalkingNetwork ::
  "(OSMWay list \<Rightarrow> (string \<times> OSMNode) list \<Rightarrow> OSMWay \<Rightarrow> tags) \<Rightarrow> fetch_outcome \<Rightarrow>
   Coordinate \<Rightarrow> Coordinate \<Rightarrow> OSMGraph" where
  "fetchWalkingNetwork reclassify outcome start endp =
     (case outcome of
        FetchOk elements \<Rightarrow> buildGraph reclassify elements
      | FetchFailed \<Rightarrow> createFallbackGraph start endp)"

definition push_route ::
  "OSMGraph \<Rightarrow> string \<Rightarrow> string \<Rightarrow> string \<Rightarrow> string \<Rightarrow> string list \<Rightarrow> RouteResult list \<Rightarrow>
   RouteResult list result" where
  "push_route graph nm descr col prio path routes =
     bind_result (path_coordinates graph path) (\<lambda>cs.
       Returns (routes @ [\<lparr>r_name = nm, r_description = descr, coordinates = cs,
                            stats = calculateRouteStats graph path,
                            color = col, priority = prio\<rparr>]))"

text \<open>The body of the \<^verbatim>\<open>try\<close> block of \<^verbatim>\<open>calculateMultipleRoutes\<close>, after the fetch.\<close>

definition compute_routes ::
  "(Coordinate \<Rightarrow> Coordinate \<Rightarrow> double) \<Rightarrow> (nat \<Rightarrow> real) \<Rightarrow> OSMGraph \<Rightarrow> Coordinate \<Rightarrow> Coordinate \<Rightarrow>
   RouteResult list result" where
  "compute_routes cd rnd graph start endp =
     (case (findNearestNode cd graph start, findNearestNode cd graph endp) of
        (Some startNodeId, Some endNodeId) \<Rightarrow>
          if startNodeId = [] \<or> endNodeId = [] then Throws ''Could not find nearest nodes''
          else
            bind_result (findShortestPath graph startNodeId endNodeId True) (\<lambda>shortestPath.
            bind_result
              (case shortestPath of
                 Some path \<Rightarrow>
                   push_route graph ''SHORTEST'' ''Fastest direct route'' ''#ff4444'' ''speed''
                     path []
               | None \<Rightarrow> Returns []) (\<lambda>routes.
            bind_result (findShortestPath graph startNodeId endNodeId False) (\<lambda>funPath.
            bind_result
              (case funPath of
                 Some path \<Rightarrow>
                   if funPath \<noteq> shortestPath
                   then push_route graph ''MOST_FUN'' ''Maximum fun score route'' ''#44ff44''
                          ''fun'' path routes
                   else Returns routes
               | None \<Rightarrow> Returns routes) (\<lambda>routes.
            bind_result
              (if length routes = 2 then
                 bind_result (findBalancedPath graph startNodeId endNodeId) (\<lambda>balancedPath.
                   case balancedPath of
                     Some path \<Rightarrow>
                       push_route graph ''BALANCED'' ''Good mix of speed and fun'' ''#4444ff''
                         ''balanced'' path routes
                   | None \<Rightarrow> Returns routes)
               else Returns routes) (\<lambda>routes.
            bind_result
              (if length routes = 0 then
                 bind_result (createSimpleRoute graph start endp) (\<lambda>simpleRoute.
                   case simpleRoute of
                     Some r \<Rightarrow> Returns (routes @ [r])
                   | None \<Rightarrow> Returns routes)
               else Returns routes) (\<lambda>routes.
            Returns
              (if length routes = 1 then
                 routes @
                 [\<lparr>r_name = ''ALTERNATIVE'', r_description = ''Alternative scenic route'',
                   coordinates = createAlternativeRoute rnd (coordinates (routes ! 0)),
                   stats = calculateRouteStats graph
                             (case shortestPath of Some path \<Rightarrow> path | None \<Rightarrow> []),
                   color = ''#44ff44'', priority = ''fun''\<rparr>]
               else routes)))))))
      | _ \<Rightarrow> Throws ''Could not find nearest nodes'')"

text \<open>\<^verbatim>\<open>calculateMultipleRoutes\<close>: whatever the body throws is caught.\<close>

definition calculateMultipleRoutes ::
  "(Coordinate \<Rightarrow> Coordinate \<Rightarrow> double) \<Rightarrow> (nat \<Rightarrow> real) \<Rightarrow>
   (OSMWay list \<Rightarrow> (string \<times> OSMNode) list \<Rightarrow> OSMWay \<Rightarrow> tags) \<Rightarrow> fetch_outcome \<Rightarrow>
   Coordinate \<Rightarrow> Coordinate \<Rightarrow> RouteResult list result" where
  "calculateMultipleRoutes cd rnd reclassify outcome start endp =
     (case compute_routes cd rnd (fetchWalkingNetwork reclassify outcome start endp) start endp of
        Returns routes \<Rightarrow> Returns routes
      | Throws m \<Rightarrow> Returns (createFallbackRoutes start endp)
      | Diverges \<Rightarrow> Diverges)"

subsection \<open>Adjacent-path reclassification\<close>








subsection \<open>Invariants of the adjacency map\<close>

text \<open>
  Keys are unique, every key is a known node with at least one connection, and every
  connection leads to a key.
\<close>

definition adj_ok :: "(string \<times> OSMNode) list \<Rightarrow> adjacency \<Rightarrow> bool" where
  "adj_ok ns adj \<longleftrightarrow>
     distinct (map fst adj) \<and>
     (\<forall>k cs. map_of adj k = Some cs \<longrightarrow>
        cs \<noteq> [] \<and> map_of ns k \<noteq> None \<and> (\<forall>c \<in> set cs. map_of adj (nodeId c) \<noteq> None))"

text \<open>A property that every connection has.\<close>

definition all_connections :: "(Connection \<Rightarrow> bool) \<Rightarrow> adjacency \<Rightarrow> bool" where
  "all_connections P adj \<longleftrightarrow> (\<forall>k cs. map_of adj k = Some cs \<longrightarrow> (\<forall>c \<in> set cs. P c))"

text \<open>
  The nodes of a snapshot are regional when their latitudes lie between -90 and 90 and any
  two of them are at most a third of the Earth's circumference apart, that is when the
  haversine term \<^verbatim>\<open>a\<close> of any two is at most 3/4. For such nodes the computed \<^verbatim>\<open>a\<close> stays
  between 0 and 1, so that every distance the engine computes is a number and not NaN.
\<close>

definition regional :: "(string \<times> OSMNode) list \<Rightarrow> bool" where
  "regional ns \<longleftrightarrow>
     (\<forall>p \<in> set ns. \<forall>q \<in> set ns.
        - 90 \<le> n_lat (snd p) \<and> n_lat (snd p) \<le> 90 \<and>
        haversine_a (node_coord (snd p)) (node_coord (snd q)) \<le> 3 / 4)"

subsection \<open>A small snapshot\<close>

text \<open>
  Three nodes on the equator, the second and third at the same place on the antimeridian,
  joined by one footway; and a reclassification pass that leaves every way as it is.
\<close>

definition keep_tags :: "OSMWay list \<Rightarrow> (string \<times> OSMNode) list \<Rightarrow> OSMWay \<Rightarrow> tags" where
  "keep_tags tempWays ns way = w_tags way"

definition example_elements :: "OverpassElement list" where
  "example_elements =
     [\<lparr>e_id = 1, e_type = ''node'', e_lat = Some 0, e_lon = Some 0, e_nodes = None, e_tags = None\<rparr>,
      \<lparr>e_id = 2, e_type = ''node'', e_lat = Some 0, e_lon = Some 180, e_nodes = None, e_tags = None\<rparr>,
      \<lparr>e_id = 3, e_type = ''node'', e_lat = Some 0, e_lon = Some 180, e_nodes = None, e_tags = None\<rparr>,
      \<lparr>e_id = 10, e_type = ''way'', e_lat = None, e_lon = None, e_nodes = Some [1, 2, 3],
        e_tags = Some [''highway'' \<mapsto> ''footway'']\<rparr>]"

text \<open>
  The same three nodes a quarter of the Earth's circumference apart: a regional snapshot.
\<close>

definition quarter_elements :: "OverpassElement list" where
  "quarter_elements =
     [\<lparr>e_id = 1, e_type = ''node'', e_lat = Some 0, e_lon = Some 0, e_nodes = None, e_tags = None\<rparr>,
      \<lparr>e_id = 2, e_type = ''node'', e_lat = Some 0, e_lon = Some 90, e_nodes = None, e_tags = None\<rparr>,
      \<lparr>e_id = 3, e_type = ''node'', e_lat = Some 0, e_lon = Some 90, e_nodes = None, e_tags = None\<rparr>,
      \<lparr>e_id = 10, e_type = ''way'', e_lat = None, e_lon = None, e_nodes = Some [1, 2, 3],
        e_tags = Some [''highway'' \<mapsto> ''footway'']\<rparr>]"


section \<open>Properties\<close>

subsection \<open>Fun-score model\<close>

lemma name_includes_empty_name:
  "t ''name'' = Some [] \<Longrightarrow> sub \<noteq> [] \<Longrightarrow> \<not> name_includes t sub"
  by (simp add: name_includes_def toLowerCase_def)

lemma interest_score_ge_1: "1 \<le> interest_score t"
  by (simp add: interest_score_def bonus_def)

lemma calculateFunWeight_eq:
  "calculateFunWeight way len = len / interest_score (w_tags way)"
proof -
  have water: "(truthy (w_tags way ''waterway'') \<or>
                (truthy (w_tags way ''name'') \<and> name_includes (w_tags way) ''water''))
               = is_water_feature (w_tags way)"
    by (cases "w_tags way ''name''")
       (auto simp: is_water_feature_def name_includes_def toLowerCase_def)
  have hw: "(case w_tags way ''highway'' of None \<Rightarrow> False
             | Some highway \<Rightarrow> highway \<noteq> [] \<and> highway \<in> FUN_HIGHWAYS)
            = walking_surface (w_tags way)"
    by (auto simp: walking_surface_def FUN_HIGHWAYS_def split: option.splits)
  show ?thesis
    unfolding calculateFunWeight_def Let_def water hw
    by (simp add: interest_score_def bonus_def is_park_def is_viewpoint_or_attraction_def
        is_forest_or_wood_def is_historic_def is_scenic_def)
qed

text \<open>
  C6: the score of a way starts at 1.0 and gains, independently of one another, +2.0 for a
  dedicated walking highway class, +1.5 for a park, +3.0 for a viewpoint or attraction,
  +1.5 for forest or wood, +1.5 for a water feature, +2.0 for a historic tag and +2.5 for
  a scenic tag or name; the fun-weight is the length divided by that score.
\<close>

theorem calculateFunWeight_is_length_over_score:
  "calculateFunWeight way len = len / interest_score (w_tags way)"
  by (rule calculateFunWeight_eq)

subsection \<open>Alternative route\<close>

lemma length_alt_map: "length (alt_map rnd n k index cs) = length cs"
  by (induction cs arbitrary: k index) auto

lemma hd_alt_map: "cs \<noteq> [] \<Longrightarrow> hd (alt_map rnd n k 0 cs) = hd cs"
  by (cases cs) auto

lemma alt_map_not_Nil: "cs \<noteq> [] \<Longrightarrow> alt_map rnd n k index cs \<noteq> []"
  by (cases cs) auto

lemma last_alt_map:
  "cs \<noteq> [] \<Longrightarrow> index + length cs = n \<Longrightarrow> last (alt_map rnd n k index cs) = last cs"
proof (induction cs arbitrary: k index)
  case Nil
  then show ?case by simp
next
  case (Cons c rest)
  show ?case
  proof (cases rest)
    case Nil
    with Cons.prems show ?thesis by auto
  next
    case (Cons d rest')
    then have ne: "rest \<noteq> []" by simp
    from Cons.prems have "Suc index + length rest = n" by simp
    with Cons.IH [OF ne] have "\<And>k. last (alt_map rnd n k (Suc index) rest) = last rest"
      by blast
    with ne show ?thesis
      by (simp add: alt_map_not_Nil)
  qed
qed

text \<open>
  C10: for a coordinate sequence of at least two points the alternative route has the same
  number of points, and its first and last points are the first and last points of the
  input, whatever the random draws are; only points strictly between them are offset.
\<close>

theorem createAlternativeRoute_keeps_endpoints:
  "2 \<le> length cs \<Longrightarrow>
   length (createAlternativeRoute rnd cs) = length cs \<and>
   hd (createAlternativeRoute rnd cs) = hd cs \<and>
   last (createAlternativeRoute rnd cs) = last cs"
proof -
  assume len: "2 \<le> length cs"
  then have ne: "cs \<noteq> []" by auto
  show ?thesis
    unfolding createAlternativeRoute_def
    using ne by (simp add: length_alt_map hd_alt_map last_alt_map)
qed

theorem createAlternativeRoute_keeps_endpoints_witness:
  "length (createAlternativeRoute (\<lambda>i. 1 / 4)
      [\<lparr>lat = 1, lng = 2\<rparr>, \<lparr>lat = 3, lng = 4\<rparr>, \<lparr>lat = 5, lng = 6\<rparr>]) = 3 \<and>
   hd (createAlternativeRoute (\<lambda>i. 1 / 4)
      [\<lparr>lat = 1, lng = 2\<rparr>, \<lparr>lat = 3, lng = 4\<rparr>, \<lparr>lat = 5, lng = 6\<rparr>]) = \<lparr>lat = 1, lng = 2\<rparr> \<and>
   last (createAlternativeRoute (\<lambda>i. 1 / 4)
      [\<lparr>lat = 1, lng = 2\<rparr>, \<lparr>lat = 3, lng = 4\<rparr>, \<lparr>lat = 5, lng = 6\<rparr>]) = \<lparr>lat = 5, lng = 6\<rparr>"
  using createAlternativeRoute_keeps_endpoints
    [of "[\<lparr>lat = 1, lng = 2\<rparr>, \<lparr>lat = 3, lng = 4\<rparr>, \<lparr>lat = 5, lng = 6\<rparr>]" "\<lambda>i. 1 / 4"]
  by simp

subsection \<open>Great-circle distance\<close>

lemma cos_mult_lower: "- ((sin ((A - B) / 2))\<^sup>2) \<le> cos A * cos (B::real)"
proof -
  have 1: "cos A * cos B = (cos (A - B) + cos (A + B)) / 2"
    by (simp add: cos_add cos_diff)
  have "2 * ((A - B) / 2) = A - B" by simp
  then have 2: "cos (A - B) = 1 - 2 * (sin ((A - B) / 2))\<^sup>2"
    using cos_double_sin [of "(A - B) / 2"] by (simp only:)
  have 3: "- 1 \<le> cos (A + B)" by simp
  have "- s \<le> p" if "p = (c1 + c2) / 2" "c1 = 1 - 2 * s" "- 1 \<le> c2" for p :: real and c1 :: real and c2 :: real and s :: real
    using that by argo
  from this [OF 1 2 3] show ?thesis .
qed

lemma cos_mult_upper: "cos A * cos (B::real) \<le> 1 - (sin ((A - B) / 2))\<^sup>2"
proof -
  have 1: "cos A * cos B = (cos (A - B) + cos (A + B)) / 2"
    by (simp add: cos_add cos_diff)
  have "2 * ((A - B) / 2) = A - B" by simp
  then have 2: "cos (A - B) = 1 - 2 * (sin ((A - B) / 2))\<^sup>2"
    using cos_double_sin [of "(A - B) / 2"] by (simp only:)
  have 3: "cos (A + B) \<le> 1" by simp
  have "p \<le> 1 - s" if "p = (c1 + c2) / 2" "c1 = 1 - 2 * s" "c2 \<le> 1" for p :: real and c1 :: real and c2 :: real and s :: real
    using that by argo
  from this [OF 1 2 3] show ?thesis .
qed

lemma hav_bounds:
  fixes s t c :: real
  assumes "0 \<le> s" "s \<le> 1" "0 \<le> t" "t \<le> 1" "- s \<le> c" "c \<le> 1 - s"
  shows "0 \<le> s + c * t \<and> s + c * t \<le> 1"
proof (cases "0 \<le> c")
  case True
  then have "0 \<le> c * t" using assms by simp
  moreover have "c * t \<le> c * 1" using True assms by (intro mult_left_mono) auto
  ultimately show ?thesis using assms by auto
next
  case False
  then have "c * t \<le> 0" using assms by (simp add: mult_nonpos_nonneg)
  moreover have "c * 1 \<le> c * t" using False assms by (intro mult_left_mono_neg) auto
  ultimately show ?thesis using assms by auto
qed

lemma haversine_a_bounds: "0 \<le> haversine_a p q \<and> haversine_a p q \<le> 1"
proof -
  define x where "x = (lat q - lat p) * pi / 180 / 2"
  define y where "y = (lng q - lng p) * pi / 180 / 2"
  define A where "A = lat p * pi / 180"
  define B where "B = lat q * pi / 180"
  have x: "x = - ((A - B) / 2)" by (simp add: x_def A_def B_def field_simps)
  have sx: "(sin x)\<^sup>2 = (sin ((A - B) / 2))\<^sup>2" unfolding x by simp
  have a: "haversine_a p q = (sin x)\<^sup>2 + (cos A * cos B) * (sin y)\<^sup>2"
    by (simp add: haversine_a_def Let_def x_def y_def A_def B_def power2_eq_square algebra_simps)
  have "0 \<le> (sin x)\<^sup>2 + (cos A * cos B) * (sin y)\<^sup>2 \<and>
        (sin x)\<^sup>2 + (cos A * cos B) * (sin y)\<^sup>2 \<le> 1"
  proof (intro hav_bounds)
    show "(sin x)\<^sup>2 \<le> 1"
      using sin_cos_squared_add [of x] zero_le_power2 [of "cos x"] by linarith
    show "(sin y)\<^sup>2 \<le> 1"
      using sin_cos_squared_add [of y] zero_le_power2 [of "cos y"] by linarith
    show "- ((sin x)\<^sup>2) \<le> cos A * cos B"
      using cos_mult_lower [of A B] by (simp add: sx)
    show "cos A * cos B \<le> 1 - (sin x)\<^sup>2"
      using cos_mult_upper [of A B] by (simp add: sx)
  qed simp_all
  with a show ?thesis by simp
qed

lemma atan2_nonneg: "0 \<le> y \<Longrightarrow> 0 \<le> atan2 y x"
proof -
  assume y: "0 \<le> y"
  have "x < 0 \<Longrightarrow> 0 \<le> arctan (y / x) + pi"
    using arctan_lbound [of "y / x"] pi_gt_zero by linarith
  moreover have "0 < x \<Longrightarrow> 0 \<le> arctan (y / x)"
    using y by simp
  ultimately show ?thesis
    using y by (auto simp: atan2_def)
qed

lemma calculateDistance_nonneg: "0 \<le> calculateDistance p q"
  using haversine_a_bounds [of p q]
  by (simp add: calculateDistance_def Let_def atan2_nonneg)

lemma calculateDistance_same: "calculateDistance p p = 0"
  by (simp add: calculateDistance_def haversine_a_def atan2_def)

lemma calculateDistance_antipode:
  "calculateDistance \<lparr>lat = 0, lng = 0\<rparr> \<lparr>lat = 0, lng = 180\<rparr> = 6371000 * pi"
  by (simp add: calculateDistance_def haversine_a_def atan2_def)

subsection \<open>Shortest-path search\<close>

text \<open>
  After the initialisation every distance is \<^verbatim>\<open>Infinity\<close> and every predecessor is
  \<^verbatim>\<open>null\<close>; the start node then gets distance 0.
\<close>

lemma init_search_distances:
  "init_search ks d0 p0 u0 = (d, p, u) \<Longrightarrow> map_of d k = map_of d0 k \<or> map_of d k = Some Infinity"
  by (induction ks d0 p0 u0 rule: init_search.induct) (auto simp: update_conv' split: if_splits)

lemma init_search_previous:
  "init_search ks d0 p0 u0 = (d, p, u) \<Longrightarrow> map_of p k = map_of p0 k \<or> map_of p k = Some None"
  by (induction ks d0 p0 u0 rule: init_search.induct) (auto simp: update_conv' split: if_splits)

text \<open>
  The scan reads a distance through \<^verbatim>\<open>|| Infinity\<close>, which turns the start node's 0
  into \<^verbatim>\<open>Infinity\<close>: on the initial state no node is selected.
\<close>

lemma selectMin_all_Infinity:
  "(\<And>k. or_Infinity (map_of d k) = Infinity) \<Longrightarrow> selectMin d us cur Infinity = (cur, Infinity)"
  by (induction us) (auto simp: Let_def)

lemma start_distances_read_Infinity:
  assumes "init_search ks [] [] [] = (d, p, u)"
  shows "or_Infinity (map_of (AList.update s (Fin 0) d) k) = Infinity"
  using init_search_distances [OF assms, of k] by (auto simp: update_conv')

lemma shortest_loop_first_round:
  assumes "\<And>k. or_Infinity (map_of d k) = Infinity"
  shows "fst (shortest_loop g e b d p u n) = p"
  using assms by (subst shortest_loop.simps) (simp add: selectMin_all_Infinity)

lemma balanced_loop_first_round:
  assumes "\<And>k. or_Infinity (map_of d k) = Infinity"
  shows "balanced_loop g e d p u = p"
  using assms by (subst balanced_loop.simps) (simp add: selectMin_all_Infinity)

lemma reconstruct_path_initial:
  assumes "init_search ks [] [] [] = (d, p, u)"
  shows "reconstruct_path p e = Returns None"
  using init_search_previous [OF assms, of e] by (auto simp: reconstruct_path_def)

lemma findShortestPath_Returns_None: "findShortestPath g s e b = Returns None"
proof -
  obtain d p u where i: "init_search (map fst (nodes g)) [] [] [] = (d, p, u)"
    by (cases "init_search (map fst (nodes g)) [] [] []") auto
  have "fst (shortest_loop g e b (AList.update s (Fin 0) d) p u 0) = p"
    by (rule shortest_loop_first_round) (rule start_distances_read_Infinity [OF i])
  then obtain n where "shortest_loop g e b (AList.update s (Fin 0) d) p u 0 = (p, n)"
    by (cases "shortest_loop g e b (AList.update s (Fin 0) d) p u 0") auto
  with i show ?thesis
    by (simp add: findShortestPath_def reconstruct_path_initial [OF i])
qed

lemma findBalancedPath_Returns_None: "findBalancedPath g s e = Returns None"
proof -
  obtain d p u where i: "init_search (map fst (nodes g)) [] [] [] = (d, p, u)"
    by (cases "init_search (map fst (nodes g)) [] [] []") auto
  have "balanced_loop g e (AList.update s (Fin 0) d) p u = p"
    by (rule balanced_loop_first_round) (rule start_distances_read_Infinity [OF i])
  with i show ?thesis
    by (simp add: findBalancedPath_def reconstruct_path_initial [OF i])
qed

text \<open>The counter of \<^verbatim>\<open>findShortestPath\<close> never passes \<^verbatim>\<open>maxIterations\<close>.\<close>

lemma shortest_loop_iterations:
  "n \<le> maxIterations \<Longrightarrow> snd (shortest_loop g e b d p u n) \<le> maxIterations"
proof (induction g e b d p u n rule: shortest_loop.induct)
  case (1 g e b d p u n)
  show ?case
    apply (subst shortest_loop.simps)
    using 1 by (auto split: prod.splits option.splits)
qed

subsection \<open>Route computation\<close>

text \<open>
  No search returns a path, so the route computation yields the empty list whenever both
  end points snap to a node, and throws otherwise.
\<close>

lemma simple_route_loop_None: "simple_route_loop g s e ps = Returns None"
  by (induction ps) (auto simp: findShortestPath_Returns_None)

lemma createSimpleRoute_None: "createSimpleRoute g s e = Returns None"
  by (simp add: createSimpleRoute_def simple_route_loop_None)

lemma compute_routes_outcome:
  "compute_routes cd rnd g s e =
     (case (findNearestNode cd g s, findNearestNode cd g e) of
        (Some a, Some b) \<Rightarrow>
          if a = [] \<or> b = [] then Throws ''Could not find nearest nodes'' else Returns []
      | _ \<Rightarrow> Throws ''Could not find nearest nodes'')"
  by (simp add: compute_routes_def findShortestPath_Returns_None findBalancedPath_Returns_None
      createSimpleRoute_None split: option.splits)

text \<open>
  Over the fallback graph a query point snaps to a node as soon as its distance to itself
  is a number; then the caller of a failed fetch receives the empty list.
\<close>

lemma findNearestNode_fallback_start:
  assumes "cd s s \<noteq> NaN"
  shows "findNearestNode cd (createFallbackGraph s e) s = Some ''start'' \<or>
         findNearestNode cd (createFallbackGraph s e) s = Some ''end''"
proof -
  obtain a b where s: "s = \<lparr>lat = a, lng = b\<rparr>" by (cases s)
  obtain a' b' where e: "e = \<lparr>lat = a', lng = b'\<rparr>" by (cases e)
  from assms obtain d where "cd s s = Number d" by (cases "cd s s") auto
  then show ?thesis
    by (cases "cd s e")
       (simp_all add: s e findNearestNode_def createFallbackGraph_def Let_def node_coord_def)
qed

lemma findNearestNode_fallback_end:
  assumes "cd e e \<noteq> NaN"
  shows "findNearestNode cd (createFallbackGraph s e) e = Some ''start'' \<or>
         findNearestNode cd (createFallbackGraph s e) e = Some ''end''"
proof -
  obtain a b where s: "s = \<lparr>lat = a, lng = b\<rparr>" by (cases s)
  obtain a' b' where e: "e = \<lparr>lat = a', lng = b'\<rparr>" by (cases e)
  from assms obtain d where "cd e e = Number d" by (cases "cd e e") auto
  then show ?thesis
    by (cases "cd e s")
       (simp_all add: s e findNearestNode_def createFallbackGraph_def Let_def node_coord_def)
qed

lemma fetch_failed_no_route:
  assumes "cd s s \<noteq> NaN" and "cd e e \<noteq> NaN"
  shows "calculateMultipleRoutes cd rnd reclassify FetchFailed s e = Returns []"
  using findNearestNode_fallback_start [of cd s e] findNearestNode_fallback_end [of cd e s] assms
  by (auto simp: calculateMultipleRoutes_def fetchWalkingNetwork_def compute_routes_outcome)

lemma createFallbackRoutes_direct:
  "\<exists>r. createFallbackRoutes s e = [r] \<and> r_name r = ''DIRECT'' \<and> coordinates r = [s, e]"
  by (simp add: createFallbackRoutes_def Let_def)

text \<open>
  C1: the code does not do what the claim says. After a failed fetch the network is the
  synthetic two-node graph joining origin and destination in both directions, but every
  search over it returns no path, because the start node's distance 0 is read as Infinity,
  and nothing is thrown: the caller receives the empty list. The single DIRECT route with
  the coordinates origin, destination, which the claim promises, is what
  \<^verbatim>\<open>createFallbackRoutes\<close> builds; it is reached only when the route computation throws.
\<close>

theorem fetch_failure_returns_no_route:
  "fetchWalkingNetwork (\<lambda>ws ns w. w_tags w) FetchFailed
     \<lparr>lat = 58.508594, lng = 15.487358\<rparr> \<lparr>lat = 58.490666, lng = 15.498153\<rparr>
     = createFallbackGraph \<lparr>lat = 58.508594, lng = 15.487358\<rparr> \<lparr>lat = 58.490666, lng = 15.498153\<rparr> \<and>
   map (\<lambda>(k, cs). (k, map nodeId cs))
     (adjacency (createFallbackGraph \<lparr>lat = 58.508594, lng = 15.487358\<rparr>
                   \<lparr>lat = 58.490666, lng = 15.498153\<rparr>))
     = [(''start'', [''end'']), (''end'', [''start''])] \<and>
   findShortestPath (createFallbackGraph \<lparr>lat = 58.508594, lng = 15.487358\<rparr>
                       \<lparr>lat = 58.490666, lng = 15.498153\<rparr>) ''start'' ''end'' True = Returns None \<and>
   calculateMultipleRoutes exact_distance (\<lambda>i. 0) (\<lambda>ws ns w. w_tags w) FetchFailed
     \<lparr>lat = 58.508594, lng = 15.487358\<rparr> \<lparr>lat = 58.490666, lng = 15.498153\<rparr> = Returns [] \<and>
   (\<exists>r. createFallbackRoutes \<lparr>lat = 58.508594, lng = 15.487358\<rparr>
           \<lparr>lat = 58.490666, lng = 15.498153\<rparr> = [r] \<and>
        r_name r = ''DIRECT'' \<and>
        coordinates r = [\<lparr>lat = 58.508594, lng = 15.487358\<rparr>, \<lparr>lat = 58.490666, lng = 15.498153\<rparr>])"
proof (intro conjI)
  show "fetchWalkingNetwork (\<lambda>ws ns w. w_tags w) FetchFailed
     \<lparr>lat = 58.508594, lng = 15.487358\<rparr> \<lparr>lat = 58.490666, lng = 15.498153\<rparr>
     = createFallbackGraph \<lparr>lat = 58.508594, lng = 15.487358\<rparr> \<lparr>lat = 58.490666, lng = 15.498153\<rparr>"
    by (simp add: fetchWalkingNetwork_def)
  show "map (\<lambda>(k, cs). (k, map nodeId cs))
     (adjacency (createFallbackGraph \<lparr>lat = 58.508594, lng = 15.487358\<rparr>
                   \<lparr>lat = 58.490666, lng = 15.498153\<rparr>))
     = [(''start'', [''end'']), (''end'', [''start''])]"
    by (simp add: createFallbackGraph_def Let_def)
  show "findShortestPath (createFallbackGraph \<lparr>lat = 58.508594, lng = 15.487358\<rparr>
          \<lparr>lat = 58.490666, lng = 15.498153\<rparr>) ''start'' ''end'' True = Returns None"
    by (rule findShortestPath_Returns_None)
  show "calculateMultipleRoutes exact_distance (\<lambda>i. 0) (\<lambda>ws ns w. w_tags w) FetchFailed
     \<lparr>lat = 58.508594, lng = 15.487358\<rparr> \<lparr>lat = 58.490666, lng = 15.498153\<rparr> = Returns []"
    by (rule fetch_failed_no_route) (simp_all add: exact_distance_def)
  show "\<exists>r. createFallbackRoutes \<lparr>lat = 58.508594, lng = 15.487358\<rparr>
           \<lparr>lat = 58.490666, lng = 15.498153\<rparr> = [r] \<and>
        r_name r = ''DIRECT'' \<and>
        coordinates r = [\<lparr>lat = 58.508594, lng = 15.487358\<rparr>, \<lparr>lat = 58.490666, lng = 15.498153\<rparr>]"
    by (rule createFallbackRoutes_direct)
qed

subsection \<open>Nearest node\<close>

text \<open>
  The scan keeps the running minimum of the computed distances that are numbers: either
  the candidate it started with survives, or the result is the first entry that is
  strictly nearer than every number before it and at least as near as every number after
  it.
\<close>

lemma nearest_loop_running:
  "(nearest_loop cd q ns (Some c) (Fin m) = Some c \<and>
      (\<forall>p \<in> set ns. \<forall>e. cd q (node_coord (snd p)) = Number e \<longrightarrow> m \<le> e)) \<or>
   (\<exists>pre k n d post. ns = pre @ (k, n) # post \<and>
      nearest_loop cd q ns (Some c) (Fin m) = Some k \<and>
      cd q (node_coord n) = Number d \<and> d < m \<and>
      (\<forall>p \<in> set pre. \<forall>e. cd q (node_coord (snd p)) = Number e \<longrightarrow> d < e) \<and>
      (\<forall>p \<in> set post. \<forall>e. cd q (node_coord (snd p)) = Number e \<longrightarrow> d \<le> e))"
  (is "?A ns c m \<or> ?B ns c m")
proof (induction ns arbitrary: c m)
  case Nil
  show ?case by simp
next
  case (Cons a ns)
  obtain k n where a: "a = (k, n)" by (cases a)
  show ?case
  proof (cases "cd q (node_coord n)")
    case NaN
    then have step: "nearest_loop cd q (a # ns) (Some c) (Fin m) = nearest_loop cd q ns (Some c) (Fin m)"
      by (simp add: a)
    from Cons.IH [of c m] show ?thesis
    proof
      assume "?A ns c m"
      with step NaN have "?A (a # ns) c m" by (simp add: a)
      then show ?thesis ..
    next
      assume "?B ns c m"
      then obtain pre k' n' d post where h: "ns = pre @ (k', n') # post"
          "nearest_loop cd q ns (Some c) (Fin m) = Some k'"
          "cd q (node_coord n') = Number d" "d < m"
          "\<forall>p \<in> set pre. \<forall>e. cd q (node_coord (snd p)) = Number e \<longrightarrow> d < e"
          "\<forall>p \<in> set post. \<forall>e. cd q (node_coord (snd p)) = Number e \<longrightarrow> d \<le> e"
        by blast
      with step NaN have "a # ns = (a # pre) @ (k', n') # post \<and>
          nearest_loop cd q (a # ns) (Some c) (Fin m) = Some k' \<and>
          cd q (node_coord n') = Number d \<and> d < m \<and>
          (\<forall>p \<in> set (a # pre). \<forall>e. cd q (node_coord (snd p)) = Number e \<longrightarrow> d < e) \<and>
          (\<forall>p \<in> set post. \<forall>e. cd q (node_coord (snd p)) = Number e \<longrightarrow> d \<le> e)"
        by (simp add: a)
      then have "?B (a # ns) c m" by blast
      then show ?thesis ..
    qed
  next
    case (Number x)
    show ?thesis
    proof (cases "x < m")
      case True
      then have step: "nearest_loop cd q (a # ns) (Some c) (Fin m) = nearest_loop cd q ns (Some k) (Fin x)"
        by (simp add: a Number)
      from Cons.IH [of k x] show ?thesis
      proof
        assume "?A ns k x"
        with step True Number have "a # ns = [] @ (k, n) # ns \<and>
            nearest_loop cd q (a # ns) (Some c) (Fin m) = Some k \<and>
            cd q (node_coord n) = Number x \<and> x < m \<and>
            (\<forall>p \<in> set []. \<forall>e. cd q (node_coord (snd p)) = Number e \<longrightarrow> x < e) \<and>
            (\<forall>p \<in> set ns. \<forall>e. cd q (node_coord (snd p)) = Number e \<longrightarrow> x \<le> e)"
          by (simp add: a)
        then have "?B (a # ns) c m" by blast
        then show ?thesis ..
      next
        assume "?B ns k x"
        then obtain pre k' n' d post where h: "ns = pre @ (k', n') # post"
            "nearest_loop cd q ns (Some k) (Fin x) = Some k'"
            "cd q (node_coord n') = Number d" "d < x"
            "\<forall>p \<in> set pre. \<forall>e. cd q (node_coord (snd p)) = Number e \<longrightarrow> d < e"
            "\<forall>p \<in> set post. \<forall>e. cd q (node_coord (snd p)) = Number e \<longrightarrow> d \<le> e"
          by blast
        with step True Number have "a # ns = (a # pre) @ (k', n') # post \<and>
            nearest_loop cd q (a # ns) (Some c) (Fin m) = Some k' \<and>
            cd q (node_coord n') = Number d \<and> d < m \<and>
            (\<forall>p \<in> set (a # pre). \<forall>e. cd q (node_coord (snd p)) = Number e \<longrightarrow> d < e) \<and>
            (\<forall>p \<in> set post. \<forall>e. cd q (node_coord (snd p)) = Number e \<longrightarrow> d \<le> e)"
          by (simp add: a)
        then have "?B (a # ns) c m" by blast
        then show ?thesis ..
      qed
    next
      case False
      then have step: "nearest_loop cd q (a # ns) (Some c) (Fin m) = nearest_loop cd q ns (Some c) (Fin m)"
        by (simp add: a Number)
      from Cons.IH [of c m] show ?thesis
      proof
        assume "?A ns c m"
        with step False Number have "?A (a # ns) c m" by (simp add: a)
        then show ?thesis ..
      next
        assume "?B ns c m"
        then obtain pre k' n' d post where h: "ns = pre @ (k', n') # post"
            "nearest_loop cd q ns (Some c) (Fin m) = Some k'"
            "cd q (node_coord n') = Number d" "d < m"
            "\<forall>p \<in> set pre. \<forall>e. cd q (node_coord (snd p)) = Number e \<longrightarrow> d < e"
            "\<forall>p \<in> set post. \<forall>e. cd q (node_coord (snd p)) = Number e \<longrightarrow> d \<le> e"
          by blast
        with step False Number have "a # ns = (a # pre) @ (k', n') # post \<and>
            nearest_loop cd q (a # ns) (Some c) (Fin m) = Some k' \<and>
            cd q (node_coord n') = Number d \<and> d < m \<and>
            (\<forall>p \<in> set (a # pre). \<forall>e. cd q (node_coord (snd p)) = Number e \<longrightarrow> d < e) \<and>
            (\<forall>p \<in> set post. \<forall>e. cd q (node_coord (snd p)) = Number e \<longrightarrow> d \<le> e)"
          by (simp add: a)
        then have "?B (a # ns) c m" by blast
        then show ?thesis ..
      qed
    qed
  qed
qed

text \<open>
  Before the first node with a numeric distance the scan has no candidate: it ends without
  one exactly when every computed distance is NaN.
\<close>

lemma nearest_loop_initial:
  "(nearest_loop cd q ns None Infinity = None \<and>
      (\<forall>p \<in> set ns. cd q (node_coord (snd p)) = NaN)) \<or>
   (\<exists>pre k n d post. ns = pre @ (k, n) # post \<and>
      nearest_loop cd q ns None Infinity = Some k \<and>
      cd q (node_coord n) = Number d \<and>
      (\<forall>p \<in> set pre. \<forall>e. cd q (node_coord (snd p)) = Number e \<longrightarrow> d < e) \<and>
      (\<forall>p \<in> set post. \<forall>e. cd q (node_coord (snd p)) = Number e \<longrightarrow> d \<le> e))"
  (is "?A ns \<or> ?B ns")
proof (induction ns)
  case Nil
  show ?case by simp
next
  case (Cons a ns)
  obtain k n where a: "a = (k, n)" by (cases a)
  show ?case
  proof (cases "cd q (node_coord n)")
    case NaN
    then have step: "nearest_loop cd q (a # ns) None Infinity = nearest_loop cd q ns None Infinity"
      by (simp add: a)
    from Cons.IH show ?thesis
    proof
      assume "?A ns"
      with step NaN have "?A (a # ns)" by (simp add: a)
      then show ?thesis ..
    next
      assume "?B ns"
      then obtain pre k' n' d post where h: "ns = pre @ (k', n') # post"
          "nearest_loop cd q ns None Infinity = Some k'"
          "cd q (node_coord n') = Number d"
          "\<forall>p \<in> set pre. \<forall>e. cd q (node_coord (snd p)) = Number e \<longrightarrow> d < e"
          "\<forall>p \<in> set post. \<forall>e. cd q (node_coord (snd p)) = Number e \<longrightarrow> d \<le> e"
        by blast
      with step NaN have "a # ns = (a # pre) @ (k', n') # post \<and>
          nearest_loop cd q (a # ns) None Infinity = Some k' \<and>
          cd q (node_coord n') = Number d \<and>
          (\<forall>p \<in> set (a # pre). \<forall>e. cd q (node_coord (snd p)) = Number e \<longrightarrow> d < e) \<and>
          (\<forall>p \<in> set post. \<forall>e. cd q (node_coord (snd p)) = Number e \<longrightarrow> d \<le> e)"
        by (simp add: a)
      then have "?B (a # ns)" by blast
      then show ?thesis ..
    qed
  next
    case (Number x)
    then have step: "nearest_loop cd q (a # ns) None Infinity = nearest_loop cd q ns (Some k) (Fin x)"
      by (simp add: a)
    from nearest_loop_running [of cd q ns k x] show ?thesis
    proof
      assume "nearest_loop cd q ns (Some k) (Fin x) = Some k \<and>
        (\<forall>p \<in> set ns. \<forall>e. cd q (node_coord (snd p)) = Number e \<longrightarrow> x \<le> e)"
      with step Number have "a # ns = [] @ (k, n) # ns \<and>
          nearest_loop cd q (a # ns) None Infinity = Some k \<and>
          cd q (node_coord n) = Number x \<and>
          (\<forall>p \<in> set []. \<forall>e. cd q (node_coord (snd p)) = Number e \<longrightarrow> x < e) \<and>
          (\<forall>p \<in> set ns. \<forall>e. cd q (node_coord (snd p)) = Number e \<longrightarrow> x \<le> e)"
        by (simp add: a)
      then have "?B (a # ns)" by blast
      then show ?thesis ..
    next
      assume "\<exists>pre k' n' d post. ns = pre @ (k', n') # post \<and>
        nearest_loop cd q ns (Some k) (Fin x) = Some k' \<and>
        cd q (node_coord n') = Number d \<and> d < x \<and>
        (\<forall>p \<in> set pre. \<forall>e. cd q (node_coord (snd p)) = Number e \<longrightarrow> d < e) \<and>
        (\<forall>p \<in> set post. \<forall>e. cd q (node_coord (snd p)) = Number e \<longrightarrow> d \<le> e)"
      then obtain pre k' n' d post where h: "ns = pre @ (k', n') # post"
          "nearest_loop cd q ns (Some k) (Fin x) = Some k'"
          "cd q (node_coord n') = Number d" "d < x"
          "\<forall>p \<in> set pre. \<forall>e. cd q (node_coord (snd p)) = Number e \<longrightarrow> d < e"
          "\<forall>p \<in> set post. \<forall>e. cd q (node_coord (snd p)) = Number e \<longrightarrow> d \<le> e"
        by blast
      with step Number have "a # ns = (a # pre) @ (k', n') # post \<and>
          nearest_loop cd q (a # ns) None Infinity = Some k' \<and>
          cd q (node_coord n') = Number d \<and>
          (\<forall>p \<in> set (a # pre). \<forall>e. cd q (node_coord (snd p)) = Number e \<longrightarrow> d < e) \<and>
          (\<forall>p \<in> set post. \<forall>e. cd q (node_coord (snd p)) = Number e \<longrightarrow> d \<le> e)"
        by (simp add: a)
      then have "?B (a # ns)" by blast
      then show ?thesis ..
    qed
  qed
qed

text \<open>
  C8 (as amended): the lookup returns the node whose computed distance to the query
  coordinate is least among the nodes whose computed distance is a number; a node whose
  distance computes to NaN is skipped. Among nodes of equal computed distance the one
  inserted first into the graph is returned: every number before it is strictly greater,
  every number after it at least as great. There is no maximum search distance. The
  lookup returns null exactly when no node has a numeric computed distance, which
  includes the graph without nodes.
\<close>

theorem findNearestNode_first_minimum:
  "(findNearestNode cd g q = None \<and>
      (\<forall>p \<in> set (nodes g). cd q (node_coord (snd p)) = NaN)) \<or>
   (\<exists>pre k n d post. nodes g = pre @ (k, n) # post \<and>
      findNearestNode cd g q = Some k \<and>
      cd q (node_coord n) = Number d \<and>
      (\<forall>p \<in> set pre. \<forall>e. cd q (node_coord (snd p)) = Number e \<longrightarrow> d < e) \<and>
      (\<forall>p \<in> set post. \<forall>e. cd q (node_coord (snd p)) = Number e \<longrightarrow> d \<le> e))"
  unfolding findNearestNode_def by (rule nearest_loop_initial)

theorem findNearestNode_first_minimum_witness:
  "findNearestNode exact_distance
     \<lparr>nodes = [(''a'', \<lparr>n_id = ''a'', n_lat = 0, n_lng = 180, n_tags = Map.empty\<rparr>),
                (''b'', \<lparr>n_id = ''b'', n_lat = 0, n_lng = 0, n_tags = Map.empty\<rparr>),
                (''c'', \<lparr>n_id = ''c'', n_lat = 0, n_lng = 0, n_tags = Map.empty\<rparr>)],
      ways = [], adjacency = []\<rparr> \<lparr>lat = 0, lng = 0\<rparr> = Some ''b'' \<and>
   (\<exists>pre n d post.
      nodes \<lparr>nodes = [(''a'', \<lparr>n_id = ''a'', n_lat = 0, n_lng = 180, n_tags = Map.empty\<rparr>),
                        (''b'', \<lparr>n_id = ''b'', n_lat = 0, n_lng = 0, n_tags = Map.empty\<rparr>),
                        (''c'', \<lparr>n_id = ''c'', n_lat = 0, n_lng = 0, n_tags = Map.empty\<rparr>)],
              ways = [], adjacency = []\<rparr> = pre @ (''b'', n) # post \<and>
      exact_distance \<lparr>lat = 0, lng = 0\<rparr> (node_coord n) = Number d \<and>
      (\<forall>p \<in> set pre. \<forall>e. exact_distance \<lparr>lat = 0, lng = 0\<rparr> (node_coord (snd p)) = Number e
                          \<longrightarrow> d < e) \<and>
      (\<forall>p \<in> set post. \<forall>e. exact_distance \<lparr>lat = 0, lng = 0\<rparr> (node_coord (snd p)) = Number e
                           \<longrightarrow> d \<le> e))"
proof -
  let ?g = "\<lparr>nodes = [(''a'', \<lparr>n_id = ''a'', n_lat = 0, n_lng = 180, n_tags = Map.empty\<rparr>),
                      (''b'', \<lparr>n_id = ''b'', n_lat = 0, n_lng = 0, n_tags = Map.empty\<rparr>),
                      (''c'', \<lparr>n_id = ''c'', n_lat = 0, n_lng = 0, n_tags = Map.empty\<rparr>)],
            ways = [], adjacency = []\<rparr>"
  have r: "findNearestNode exact_distance ?g \<lparr>lat = 0, lng = 0\<rparr> = Some ''b''"
    using pi_gt_zero
    by (simp add: findNearestNode_def exact_distance_def node_coord_def calculateDistance_same
        calculateDistance_antipode)
  from findNearestNode_first_minimum [of exact_distance ?g "\<lparr>lat = 0, lng = 0\<rparr>"] r
  show ?thesis by (simp only: option.inject option.distinct) blast
qed

text \<open>
  C8 as stated fails twice. Of two equally near nodes the one inserted first is returned,
  here the one with the higher identity; and a node half the Earth's circumference away
  is still returned, so no distance cap makes the lookup fail.
\<close>

theorem findNearestNode_counterexample:
  "findNearestNode exact_distance
     \<lparr>nodes = [(''2'', \<lparr>n_id = ''2'', n_lat = 0, n_lng = 0, n_tags = Map.empty\<rparr>),
                (''1'', \<lparr>n_id = ''1'', n_lat = 0, n_lng = 0, n_tags = Map.empty\<rparr>)],
      ways = [], adjacency = []\<rparr> \<lparr>lat = 0, lng = 0\<rparr> = Some ''2'' \<and>
   exact_distance \<lparr>lat = 0, lng = 0\<rparr>
     (node_coord \<lparr>n_id = ''1'', n_lat = 0, n_lng = 0, n_tags = Map.empty\<rparr>)
   = exact_distance \<lparr>lat = 0, lng = 0\<rparr>
     (node_coord \<lparr>n_id = ''2'', n_lat = 0, n_lng = 0, n_tags = Map.empty\<rparr>) \<and>
   ''1'' < ''2'' \<and>
   findNearestNode exact_distance
     \<lparr>nodes = [(''1'', \<lparr>n_id = ''1'', n_lat = 0, n_lng = 180, n_tags = Map.empty\<rparr>)],
      ways = [], adjacency = []\<rparr> \<lparr>lat = 0, lng = 0\<rparr> = Some ''1'' \<and>
   exact_distance \<lparr>lat = 0, lng = 0\<rparr>
     (node_coord \<lparr>n_id = ''1'', n_lat = 0, n_lng = 180, n_tags = Map.empty\<rparr>)
   = Number (6371000 * pi)"
  by (simp add: findNearestNode_def exact_distance_def node_coord_def calculateDistance_same
      calculateDistance_antipode less_char_def)

subsection \<open>Route statistics\<close>

lemma stats_step_totals:
  "fst (stats_step graph a b (d, f, pt, sa)) =
     d + (case (map_of (nodes graph) a, map_of (nodes graph) b) of
            (Some node1, Some node2) \<Rightarrow> calculateDistance (node_coord node1) (node_coord node2)
          | _ \<Rightarrow> 0)"
  "fst (snd (stats_step graph a b (d, f, pt, sa))) =
     f + (case (map_of (nodes graph) a, map_of (nodes graph) b) of
            (Some node1, Some node2) \<Rightarrow>
              (case find (\<lambda>n. nodeId n = b) (neighbors_of graph a) of
                 None \<Rightarrow> 0
               | Some connection \<Rightarrow> fun_weight connection)
          | _ \<Rightarrow> 0)"
  by (auto simp: stats_step_def Let_def split: option.splits prod.splits)

lemma stats_loop_totals:
  "fst (stats_loop graph path acc) = fst acc + path_distance graph path \<and>
   fst (snd (stats_loop graph path acc)) = fst (snd acc) + path_fun_weight graph path"
proof (induction graph path acc rule: stats_loop.induct)
  case (1 graph a b rest acc)
  obtain d f pt sa where acc: "acc = (d, f, pt, sa)" by (cases acc)
  from 1 show ?case
    by (simp add: acc stats_step_totals)
qed simp_all

text \<open>
  C9 (as amended): the statistics report the total distance and the total fun-weight of
  the path; the fun score is the total distance divided by the total fun-weight when the
  total distance is positive (\<^verbatim>\<open>Infinity\<close> when the fun-weight is then zero) and 1.0
  otherwise; the headline time is the total distance walked at 4.2 km/h, in minutes,
  whatever the per-category breakdown holds.
\<close>

theorem calculateRouteStats_headline:
  "st_distance (calculateRouteStats graph path) = path_distance graph path \<and>
   st_fun_weight (calculateRouteStats graph path) = path_fun_weight graph path \<and>
   fun_score (calculateRouteStats graph path) =
     (if 0 < path_distance graph path
      then (if path_fun_weight graph path = 0 then Infinity
            else Fin (path_distance graph path / path_fun_weight graph path))
      else Fin 1) \<and>
   estimated_time (calculateRouteStats graph path) = path_distance graph path / 1000 * (60 / 4.2)"
proof -
  obtain d f pt sa where s: "stats_loop graph path (0, 0, initial_path_types, []) = (d, f, pt, sa)"
    by (cases "stats_loop graph path (0, 0, initial_path_types, [])") auto
  from stats_loop_totals [of graph path "(0, 0, initial_path_types, [])"] s
  have "d = path_distance graph path" "f = path_fun_weight graph path" by simp_all
  with s show ?thesis
    by (simp add: calculateRouteStats_def Let_def)
qed

text \<open>
  C9 as stated fails on a path without a segment, such as the empty path that stands in
  for a missing shortest path when the ALTERNATIVE route is rated: the fun score is 1.0
  while both totals are zero.
\<close>

theorem calculateRouteStats_counterexample:
  "fun_score (calculateRouteStats \<lparr>nodes = [], ways = [], adjacency = []\<rparr> []) = Fin 1 \<and>
   st_distance (calculateRouteStats \<lparr>nodes = [], ways = [], adjacency = []\<rparr> []) = 0 \<and>
   st_fun_weight (calculateRouteStats \<lparr>nodes = [], ways = [], adjacency = []\<rparr> []) = 0 \<and>
   fun_score (calculateRouteStats \<lparr>nodes = [], ways = [], adjacency = []\<rparr> [])
     \<noteq> Fin (st_distance (calculateRouteStats \<lparr>nodes = [], ways = [], adjacency = []\<rparr> [])
            / st_fun_weight (calculateRouteStats \<lparr>nodes = [], ways = [], adjacency = []\<rparr> []))"
  by (simp add: calculateRouteStats_def Let_def)

subsection \<open>Graph builder\<close>

lemma distinct_ensure_key: "distinct (map fst adj) \<Longrightarrow> distinct (map fst (ensure_key k adj))"
  by (simp add: ensure_key_def distinct_update)

lemma distinct_push_connection:
  "distinct (map fst adj) \<Longrightarrow> distinct (map fst (push_connection k c adj))"
  by (simp add: push_connection_def distinct_update split: option.splits)

lemma map_of_ensure_key:
  "map_of (ensure_key k adj) = (if map_of adj k = None then (map_of adj)(k \<mapsto> []) else map_of adj)"
  by (simp add: ensure_key_def update_conv')

lemma map_of_push_connection:
  "map_of (push_connection k c adj) =
     (case map_of adj k of None \<Rightarrow> map_of adj | Some cs \<Rightarrow> (map_of adj)(k \<mapsto> cs @ [c]))"
  by (simp add: push_connection_def update_conv' split: option.splits)

lemma distinct_add_segment:
  "distinct (map fst adj) \<Longrightarrow> distinct (map fst (add_segment ns w fw len a b adj))"
  by (auto simp: add_segment_def Let_def distinct_ensure_key distinct_push_connection
      split: option.splits)

lemma map_of_add_segment:
  assumes "map_of ns a = Some n1" "map_of ns b = Some n2"
  shows "\<exists>c1 c2. nodeId c1 = b \<and> nodeId c2 = a \<and> wayId c1 = w \<and> wayId c2 = w \<and>
           distance c1 = calculateDistance (node_coord n1) (node_coord n2) \<and>
           distance c2 = distance c1 \<and>
           fun_weight c1 = (if fw = 0 then distance c1 else fw) * (distance c1 / len) \<and>
           fun_weight c2 = fun_weight c1 \<and>
           (\<forall>k. map_of (add_segment ns w fw len a b adj) k =
              (if k = a \<and> k = b then Some ((case map_of adj k of None \<Rightarrow> [] | Some cs \<Rightarrow> cs) @ [c1, c2])
               else if k = a then Some ((case map_of adj k of None \<Rightarrow> [] | Some cs \<Rightarrow> cs) @ [c1])
               else if k = b then Some ((case map_of adj k of None \<Rightarrow> [] | Some cs \<Rightarrow> cs) @ [c2])
               else map_of adj k))"
proof -
  define d where "d = calculateDistance (node_coord n1) (node_coord n2)"
  define sfw where "sfw = (if fw = 0 then d else fw) * (d / len)"
  define c1 where "c1 = \<lparr>nodeId = b, wayId = w, distance = d, fun_weight = sfw\<rparr>"
  define c2 where "c2 = \<lparr>nodeId = a, wayId = w, distance = d, fun_weight = sfw\<rparr>"
  have eq: "add_segment ns w fw len a b adj =
              push_connection b c2 (push_connection a c1 (ensure_key b (ensure_key a adj)))"
    using assms by (simp add: add_segment_def Let_def c1_def c2_def d_def sfw_def)
  have m: "\<forall>k. map_of (add_segment ns w fw len a b adj) k =
              (if k = a \<and> k = b then Some ((case map_of adj k of None \<Rightarrow> [] | Some cs \<Rightarrow> cs) @ [c1, c2])
               else if k = a then Some ((case map_of adj k of None \<Rightarrow> [] | Some cs \<Rightarrow> cs) @ [c1])
               else if k = b then Some ((case map_of adj k of None \<Rightarrow> [] | Some cs \<Rightarrow> cs) @ [c2])
               else map_of adj k)"
    unfolding eq
    by (auto simp: map_of_push_connection map_of_ensure_key split: option.splits)
  have p: "nodeId c1 = b \<and> nodeId c2 = a \<and> wayId c1 = w \<and> wayId c2 = w \<and>
           distance c1 = calculateDistance (node_coord n1) (node_coord n2) \<and>
           distance c2 = distance c1 \<and>
           fun_weight c1 = (if fw = 0 then distance c1 else fw) * (distance c1 / len) \<and>
           fun_weight c2 = fun_weight c1"
    by (simp add: c1_def c2_def d_def sfw_def)
  from p m show ?thesis by blast
qed


lemma add_segment_adj_ok:
  assumes "adj_ok ns adj"
  shows "adj_ok ns (add_segment ns w fw len a b adj)"
proof (cases "map_of ns a")
  case None
  with assms show ?thesis by (simp add: add_segment_def)
next
  case (Some n1)
  note a = this
  show ?thesis
  proof (cases "map_of ns b")
    case None
    with assms a show ?thesis by (simp add: add_segment_def)
  next
    case (Some n2)
    from map_of_add_segment [OF a Some, where fw = fw and len = len and w = w and adj = adj]
    obtain c1 c2 where c: "nodeId c1 = b" "nodeId c2 = a"
      and m: "\<And>k. map_of (add_segment ns w fw len a b adj) k =
              (if k = a \<and> k = b then Some ((case map_of adj k of None \<Rightarrow> [] | Some cs \<Rightarrow> cs) @ [c1, c2])
               else if k = a then Some ((case map_of adj k of None \<Rightarrow> [] | Some cs \<Rightarrow> cs) @ [c1])
               else if k = b then Some ((case map_of adj k of None \<Rightarrow> [] | Some cs \<Rightarrow> cs) @ [c2])
               else map_of adj k)"
      by blast
    have keys: "map_of adj k \<noteq> None \<Longrightarrow> map_of (add_segment ns w fw len a b adj) k \<noteq> None" for k
      by (simp add: m)
    have ka: "map_of (add_segment ns w fw len a b adj) a \<noteq> None"
      and kb: "map_of (add_segment ns w fw len a b adj) b \<noteq> None"
      by (simp_all add: m)
    have old: "map_of adj k = Some cs \<Longrightarrow> x \<in> set cs \<Longrightarrow>
               map_of (add_segment ns w fw len a b adj) (nodeId x) \<noteq> None" for k cs x
      using assms keys unfolding adj_ok_def by blast
    have "cs \<noteq> [] \<and> map_of ns k \<noteq> None \<and>
          (\<forall>x \<in> set cs. map_of (add_segment ns w fw len a b adj) (nodeId x) \<noteq> None)"
      if h: "map_of (add_segment ns w fw len a b adj) k = Some cs" for k cs
    proof (cases "k = a \<or> k = b")
      case False
      with h have o: "map_of adj k = Some cs" by (simp add: m)
      with assms have "cs \<noteq> [] \<and> map_of ns k \<noteq> None" unfolding adj_ok_def by blast
      with o old show ?thesis by blast
    next
      case True
      have nk: "map_of ns k \<noteq> None" using True a Some by auto
      have sub: "set cs \<subseteq> (case map_of adj k of None \<Rightarrow> {} | Some cs' \<Rightarrow> set cs') \<union> {c1, c2}"
        using h True by (auto simp: m split: if_splits option.splits)
      have ne: "cs \<noteq> []"
        using h True by (auto simp: m split: if_splits)
      have "map_of (add_segment ns w fw len a b adj) (nodeId x) \<noteq> None" if "x \<in> set cs" for x
      proof -
        from sub that consider "x = c1" | "x = c2" | cs' where "map_of adj k = Some cs'" "x \<in> set cs'"
          by (auto split: option.splits)
        then show ?thesis
        proof cases
          case 1 then show ?thesis using kb c by simp
        next
          case 2 then show ?thesis using ka c by simp
        next
          case 3 then show ?thesis using old by blast
        qed
      qed
      with nk ne show ?thesis by blast
    qed
    moreover have "distinct (map fst (add_segment ns w fw len a b adj))"
      using assms by (simp add: adj_ok_def distinct_add_segment)
    ultimately show ?thesis unfolding adj_ok_def by blast
  qed
qed

lemma add_segments_adj_ok:
  "adj_ok ns adj \<Longrightarrow> adj_ok ns (add_segments ns w fw len xs adj)"
  by (induction ns w fw len xs adj rule: add_segments.induct) (simp_all add: add_segment_adj_ok)

lemma process_way_adj_ok:
  "adj_ok ns adj \<Longrightarrow> adj_ok ns (snd (process_way ns (ws, adj) way))"
  by (simp add: process_way_def Let_def add_segments_adj_ok split: option.splits)

lemma foldl_process_way_adj_ok:
  "adj_ok ns (snd acc) \<Longrightarrow> adj_ok ns (snd (foldl (process_way ns) acc tw))"
proof (induction tw arbitrary: acc)
  case Nil
  then show ?case by simp
next
  case (Cons way tw)
  obtain ws adj where acc: "acc = (ws, adj)" by (cases acc)
  with Cons.prems have "adj_ok ns (snd (process_way ns acc way))"
    by (simp add: process_way_adj_ok)
  from Cons.IH [OF this] show ?case by simp
qed

lemma adj_ok_empty: "adj_ok ns []"
  by (simp add: adj_ok_def)


lemma set_update_subset: "set (AList.update k v al) \<subseteq> insert (k, v) (set al)"
  by (induction al) auto

lemma map_of_connect_nodes:
  "map_of (foldl (connect_node ns) acc adj) k =
     (if \<exists>cs. (k, cs) \<in> set adj \<and> cs \<noteq> [] \<and> map_of ns k \<noteq> None then map_of ns k
      else map_of acc k)"
proof (induction adj arbitrary: acc)
  case Nil
  then show ?case by simp
next
  case (Cons e adj)
  obtain k' cs' where e: "e = (k', cs')" by (cases e)
  show ?case
    unfolding foldl_Cons Cons.IH
    by (auto simp: e connect_node_def update_conv' split: option.splits)
qed

lemma connected_iff:
  "map_of (foldl (connect_node ns) [] adj) k \<noteq> None \<longleftrightarrow>
     (\<exists>cs. (k, cs) \<in> set adj \<and> cs \<noteq> [] \<and> map_of ns k \<noteq> None)"
  by (auto simp: map_of_connect_nodes)

lemma kept_entries:
  "(k, cs') \<in> set (foldl (keep_connections cn) acc adj) \<Longrightarrow>
     (k, cs') \<in> set acc \<or>
     (cs' \<noteq> [] \<and> (\<exists>cs. (k, cs) \<in> set adj \<and>
        cs' = filter (\<lambda>conn. map_of cn (nodeId conn) \<noteq> None) cs))"
proof (induction adj arbitrary: acc)
  case Nil
  then show ?case by simp
next
  case (Cons e adj)
  obtain k0 cs0 where e: "e = (k0, cs0)" by (cases e)
  from Cons.prems have "(k, cs') \<in> set (foldl (keep_connections cn) (keep_connections cn acc e) adj)"
    by simp
  from Cons.IH [OF this] show ?case
  proof
    assume "(k, cs') \<in> set (keep_connections cn acc e)"
    then show ?thesis
      using set_update_subset [of k0 "filter (\<lambda>conn. map_of cn (nodeId conn) \<noteq> None) cs0" acc]
      by (auto simp: e keep_connections_def Let_def split: if_splits)
  next
    assume "cs' \<noteq> [] \<and> (\<exists>cs. (k, cs) \<in> set adj \<and>
        cs' = filter (\<lambda>conn. map_of cn (nodeId conn) \<noteq> None) cs)"
    then show ?thesis by auto
  qed
qed

lemma kept_keys:
  "fst ` set (foldl (keep_connections cn) acc adj) =
     fst ` set acc \<union>
     {k. \<exists>cs. (k, cs) \<in> set adj \<and> map_of cn k \<noteq> None \<and>
           filter (\<lambda>conn. map_of cn (nodeId conn) \<noteq> None) cs \<noteq> []}"
proof (induction adj arbitrary: acc)
  case Nil
  then show ?case by simp
next
  case (Cons e adj)
  obtain k0 cs0 where e: "e = (k0, cs0)" by (cases e)
  have "fst ` set (keep_connections cn acc e) =
          fst ` set acc \<union>
          (if map_of cn k0 \<noteq> None \<and> filter (\<lambda>conn. map_of cn (nodeId conn) \<noteq> None) cs0 \<noteq> []
           then {k0} else {})"
    by (auto simp: e keep_connections_def Let_def dom_update)
  then show ?case
    unfolding foldl_Cons Cons.IH by (auto simp: e)
qed

text \<open>
  C2: in every graph the builder returns, every node has an adjacency entry with at least
  one connection, and every connection of every adjacency entry leads to a node of the
  graph. The reclassification pass is arbitrary here.
\<close>

theorem buildGraph_connected:
  "(\<forall>(k, n) \<in> set (nodes (buildGraph reclassify elements)).
      \<exists>cs. map_of (adjacency (buildGraph reclassify elements)) k = Some cs \<and> cs \<noteq> []) \<and>
   (\<forall>(k, cs) \<in> set (adjacency (buildGraph reclassify elements)).
      \<forall>c \<in> set cs. map_of (nodes (buildGraph reclassify elements)) (nodeId c) \<noteq> None)"
proof -
  define ns where "ns = foldl add_node [] elements"
  define tw where "tw = detectAndReclassifyAdjacentPaths reclassify
                          (List.map_filter (collect_way ns) elements) ns"
  define adj where "adj = snd (foldl (process_way ns) ([], []) tw)"
  define cn where "cn = foldl (connect_node ns) [] adj"
  define fa where "fa = foldl (keep_connections cn) [] adj"
  have g: "nodes (buildGraph reclassify elements) = cn"
          "adjacency (buildGraph reclassify elements) = fa"
    by (simp_all add: buildGraph_def Let_def ns_def tw_def adj_def cn_def fa_def split: prod.splits)
  have ok: "adj_ok ns adj"
    unfolding adj_def by (rule foldl_process_way_adj_ok) (simp add: adj_ok_empty)
  have valid: "map_of cn k \<noteq> None" if "map_of adj k \<noteq> None" for k
  proof -
    from that obtain cs where cs: "map_of adj k = Some cs" by auto
    with ok have "cs \<noteq> [] \<and> map_of ns k \<noteq> None" unfolding adj_ok_def by blast
    moreover from cs have "(k, cs) \<in> set adj" by (rule map_of_SomeD)
    ultimately show ?thesis unfolding cn_def connected_iff by blast
  qed
  have p1: "\<exists>cs. map_of fa k = Some cs \<and> cs \<noteq> []" if kn: "(k, n) \<in> set cn" for k n
  proof -
    from kn have "map_of cn k \<noteq> None"
      by (metis map_of_eq_None_iff fst_conv image_eqI)
    then obtain cs where cs: "(k, cs) \<in> set adj" "cs \<noteq> []"
      unfolding cn_def connected_iff by blast
    from ok cs(1) have m: "map_of adj k = Some cs"
      unfolding adj_ok_def by simp
    with ok have "\<forall>c \<in> set cs. map_of adj (nodeId c) \<noteq> None" unfolding adj_ok_def by blast
    with valid have "\<forall>c \<in> set cs. map_of cn (nodeId c) \<noteq> None" by blast
    then have "filter (\<lambda>conn. map_of cn (nodeId conn) \<noteq> None) cs = cs" by simp
    with cs \<open>map_of cn k \<noteq> None\<close> have "k \<in> fst ` set fa"
      unfolding fa_def kept_keys by auto
    then obtain cs' where "map_of fa k = Some cs'"
      by (metis map_of_eq_None_iff not_None_eq)
    moreover from this have "(k, cs') \<in> set fa" by (rule map_of_SomeD)
    then have "cs' \<noteq> []" unfolding fa_def using kept_entries [of k cs' cn "[]" adj] by auto
    ultimately show ?thesis by blast
  qed
  have p2: "map_of cn (nodeId c) \<noteq> None" if "(k, cs) \<in> set fa" "c \<in> set cs" for k cs c
    using that kept_entries [of k cs cn "[]" adj] unfolding fa_def by auto
  from p1 p2 show ?thesis unfolding g by blast
qed


lemma map_filter_mem:
  "y \<in> set (List.map_filter f xs) \<Longrightarrow> \<exists>x \<in> set xs. f x = Some y"
  by (induction xs) (auto split: option.splits)

text \<open>
  Pruning removes nothing from the adjacency map of the third pass, since every key of it
  is a known node with a connection and every connection leads to a key.
\<close>

lemma update_append: "k \<notin> fst ` set al \<Longrightarrow> AList.update k v al = al @ [(k, v)]"
  by (induction al) auto

lemma keep_all_connections:
  assumes "distinct (map fst acc @ map fst adj)"
    and "\<forall>(k, cs) \<in> set adj. map_of cn k \<noteq> None \<and> cs \<noteq> [] \<and>
           (\<forall>c \<in> set cs. map_of cn (nodeId c) \<noteq> None)"
  shows "foldl (keep_connections cn) acc adj = acc @ adj"
  using assms
proof (induction adj arbitrary: acc)
  case Nil
  then show ?case by simp
next
  case (Cons e adj)
  obtain k cs where e: "e = (k, cs)" by (cases e)
  from Cons.prems(2) have h: "map_of cn k \<noteq> None" "cs \<noteq> []"
    "\<forall>c \<in> set cs. map_of cn (nodeId c) \<noteq> None"
    by (simp_all add: e)
  from h(3) have f: "filter (\<lambda>conn. map_of cn (nodeId conn) \<noteq> None) cs = cs" by simp
  from Cons.prems(1) have nk: "k \<notin> fst ` set acc" by (auto simp: e)
  from h f nk have step: "keep_connections cn acc e = acc @ [(k, cs)]"
    by (simp add: e keep_connections_def Let_def update_append)
  have "foldl (keep_connections cn) (acc @ [(k, cs)]) adj = (acc @ [(k, cs)]) @ adj"
  proof (rule Cons.IH)
    show "distinct (map fst (acc @ [(k, cs)]) @ map fst adj)"
      using Cons.prems(1) by (auto simp: e)
    show "\<forall>(k, cs) \<in> set adj. map_of cn k \<noteq> None \<and> cs \<noteq> [] \<and>
           (\<forall>c \<in> set cs. map_of cn (nodeId c) \<noteq> None)"
      using Cons.prems(2) by simp
  qed
  with step show ?case by (simp add: e)
qed

lemma prune_keeps_adjacency:
  assumes "adj_ok ns adj"
  shows "foldl (keep_connections (foldl (connect_node ns) [] adj)) [] adj = adj"
proof -
  let ?cn = "foldl (connect_node ns) [] adj"
  have key: "map_of ?cn k \<noteq> None" if "map_of adj k \<noteq> None" for k
  proof -
    from that obtain cs where cs: "map_of adj k = Some cs" by auto
    with assms have "cs \<noteq> [] \<and> map_of ns k \<noteq> None" unfolding adj_ok_def by blast
    moreover from cs have "(k, cs) \<in> set adj" by (rule map_of_SomeD)
    ultimately show ?thesis unfolding connected_iff by blast
  qed
  have "map_of ?cn k \<noteq> None \<and> cs \<noteq> [] \<and> (\<forall>c \<in> set cs. map_of ?cn (nodeId c) \<noteq> None)"
    if "(k, cs) \<in> set adj" for k cs
  proof -
    from that assms have m: "map_of adj k = Some cs" unfolding adj_ok_def by simp
    with assms have "cs \<noteq> []" "\<forall>c \<in> set cs. map_of adj (nodeId c) \<noteq> None"
      unfolding adj_ok_def by blast+
    with m key show ?thesis by auto
  qed
  then have "\<forall>(k, cs) \<in> set adj. map_of ?cn k \<noteq> None \<and> cs \<noteq> [] \<and>
           (\<forall>c \<in> set cs. map_of ?cn (nodeId c) \<noteq> None)"
    by blast
  moreover from assms have "distinct (map fst [] @ map fst adj)" by (simp add: adj_ok_def)
  ultimately have "foldl (keep_connections ?cn) [] adj = [] @ adj"
    by (rule keep_all_connections [rotated])
  then show ?thesis by simp
qed

lemma buildGraph_third_pass:
  "ways (buildGraph reclassify elements) =
     fst (foldl (process_way (foldl add_node [] elements)) ([], [])
            (detectAndReclassifyAdjacentPaths reclassify
               (List.map_filter (collect_way (foldl add_node [] elements)) elements)
               (foldl add_node [] elements)))"
  "adjacency (buildGraph reclassify elements) =
     snd (foldl (process_way (foldl add_node [] elements)) ([], [])
            (detectAndReclassifyAdjacentPaths reclassify
               (List.map_filter (collect_way (foldl add_node [] elements)) elements)
               (foldl add_node [] elements)))"
proof -
  define ns where "ns = foldl add_node [] elements"
  define tw where "tw = detectAndReclassifyAdjacentPaths reclassify
                          (List.map_filter (collect_way ns) elements) ns"
  define adj where "adj = snd (foldl (process_way ns) ([], []) tw)"
  have ok: "adj_ok ns adj"
    unfolding adj_def by (rule foldl_process_way_adj_ok) (simp add: adj_ok_empty)
  show "ways (buildGraph reclassify elements) =
     fst (foldl (process_way (foldl add_node [] elements)) ([], [])
            (detectAndReclassifyAdjacentPaths reclassify
               (List.map_filter (collect_way (foldl add_node [] elements)) elements)
               (foldl add_node [] elements)))"
    by (simp add: buildGraph_def Let_def split: prod.splits)
  have "adjacency (buildGraph reclassify elements) =
          foldl (keep_connections (foldl (connect_node ns) [] adj)) [] adj"
    by (simp add: buildGraph_def Let_def ns_def tw_def adj_def split: prod.splits)
  also have "\<dots> = adj" using ok by (rule prune_keeps_adjacency)
  finally show "adjacency (buildGraph reclassify elements) =
     snd (foldl (process_way (foldl add_node [] elements)) ([], [])
            (detectAndReclassifyAdjacentPaths reclassify
               (List.map_filter (collect_way (foldl add_node [] elements)) elements)
               (foldl add_node [] elements)))"
    by (simp add: adj_def tw_def ns_def)
qed

text \<open>
  A property of connections holds throughout the adjacency map if every connection that a
  way enters has it: a connection carries the identity of its way, a length that is not
  negative, and as fun-weight the fun-weight of the way times the share of the segment in
  the length of the way.
\<close>

lemma add_segment_all_connections:
  assumes "all_connections P adj"
    and "\<forall>c. wayId c = w \<longrightarrow> 0 \<le> distance c \<longrightarrow>
           fun_weight c = (if fw = 0 then distance c else fw) * (distance c / len) \<longrightarrow> P c"
  shows "all_connections P (add_segment ns w fw len a b adj)"
proof (cases "map_of ns a")
  case None
  with assms show ?thesis by (simp add: add_segment_def)
next
  case (Some n1)
  note a = this
  show ?thesis
  proof (cases "map_of ns b")
    case None
    with assms a show ?thesis by (simp add: add_segment_def)
  next
    case (Some n2)
    from map_of_add_segment [OF a Some, where fw = fw and len = len and w = w and adj = adj]
    obtain c1 c2 where d: "wayId c1 = w" "wayId c2 = w"
        "distance c1 = calculateDistance (node_coord n1) (node_coord n2)"
        "distance c2 = distance c1"
        "fun_weight c1 = (if fw = 0 then distance c1 else fw) * (distance c1 / len)"
        "fun_weight c2 = fun_weight c1"
      and m: "\<And>k. map_of (add_segment ns w fw len a b adj) k =
              (if k = a \<and> k = b then Some ((case map_of adj k of None \<Rightarrow> [] | Some cs \<Rightarrow> cs) @ [c1, c2])
               else if k = a then Some ((case map_of adj k of None \<Rightarrow> [] | Some cs \<Rightarrow> cs) @ [c1])
               else if k = b then Some ((case map_of adj k of None \<Rightarrow> [] | Some cs \<Rightarrow> cs) @ [c2])
               else map_of adj k)"
      by blast
    have nn: "0 \<le> distance c1" by (simp add: d calculateDistance_nonneg)
    from assms(2) d nn have e1: "P c1" by blast
    from assms(2) d nn have e2: "P c2" by simp
    have "P x" if h: "map_of (add_segment ns w fw len a b adj) k = Some cs" "x \<in> set cs"
      for k cs x
    proof -
      from h have "x = c1 \<or> x = c2 \<or> (\<exists>cs'. map_of adj k = Some cs' \<and> x \<in> set cs')"
        by (auto simp: m split: if_splits option.splits)
      with e1 e2 assms(1) show ?thesis unfolding all_connections_def by blast
    qed
    then show ?thesis unfolding all_connections_def by blast
  qed
qed

lemma add_segments_all_connections:
  "all_connections P adj \<Longrightarrow>
   \<forall>c. wayId c = w \<longrightarrow> 0 \<le> distance c \<longrightarrow>
       fun_weight c = (if fw = 0 then distance c else fw) * (distance c / len) \<longrightarrow> P c \<Longrightarrow>
   all_connections P (add_segments ns w fw len xs adj)"
  by (induction ns w fw len xs adj rule: add_segments.induct)
     (simp_all add: add_segment_all_connections)

lemma process_way_all_connections:
  assumes "all_connections P adj"
    and "\<forall>len c. w_length way = Some len \<longrightarrow> wayId c = w_id way \<longrightarrow> 0 \<le> distance c \<longrightarrow>
           fun_weight c = (if calculateFunWeight way len = 0 then distance c
                           else calculateFunWeight way len) * (distance c / len) \<longrightarrow> P c"
  shows "all_connections P (snd (process_way ns (ws, adj) way))"
proof (cases "w_length way")
  case None
  with assms show ?thesis by (simp add: process_way_def)
next
  case (Some len)
  with assms(2) have "\<forall>c. wayId c = w_id way \<longrightarrow> 0 \<le> distance c \<longrightarrow>
           fun_weight c = (if calculateFunWeight way len = 0 then distance c
                           else calculateFunWeight way len) * (distance c / len) \<longrightarrow> P c"
    by blast
  from add_segments_all_connections [OF assms(1) this]
  show ?thesis by (simp add: process_way_def Let_def Some)
qed

lemma foldl_process_way_all_connections:
  "all_connections P (snd acc) \<Longrightarrow>
   \<forall>way \<in> set tw. \<forall>len c. w_length way = Some len \<longrightarrow> wayId c = w_id way \<longrightarrow>
       0 \<le> distance c \<longrightarrow>
       fun_weight c = (if calculateFunWeight way len = 0 then distance c
                       else calculateFunWeight way len) * (distance c / len) \<longrightarrow> P c \<Longrightarrow>
   all_connections P (snd (foldl (process_way ns) acc tw))"
proof (induction tw arbitrary: acc)
  case Nil
  then show ?case by simp
next
  case (Cons way tw)
  obtain ws adj where acc: "acc = (ws, adj)" by (cases acc)
  from Cons.prems have "all_connections P (snd (process_way ns (ws, adj) way))"
    by (intro process_way_all_connections) (simp_all add: acc)
  moreover from Cons.prems(2) have "\<forall>way \<in> set tw. \<forall>len c. w_length way = Some len \<longrightarrow>
       wayId c = w_id way \<longrightarrow> 0 \<le> distance c \<longrightarrow>
       fun_weight c = (if calculateFunWeight way len = 0 then distance c
                       else calculateFunWeight way len) * (distance c / len) \<longrightarrow> P c"
    by simp
  ultimately have "all_connections P (snd (foldl (process_way ns) (process_way ns (ws, adj) way) tw))"
    by (rule Cons.IH)
  then show ?case by (simp add: acc)
qed

lemma buildGraph_all_connections:
  assumes "\<forall>way \<in> set (detectAndReclassifyAdjacentPaths reclassify
                          (List.map_filter (collect_way (foldl add_node [] elements)) elements)
                          (foldl add_node [] elements)).
             \<forall>len c. w_length way = Some len \<longrightarrow> wayId c = w_id way \<longrightarrow> 0 \<le> distance c \<longrightarrow>
               fun_weight c = (if calculateFunWeight way len = 0 then distance c
                               else calculateFunWeight way len) * (distance c / len) \<longrightarrow> P c"
    and "(k, cs) \<in> set (adjacency (buildGraph reclassify elements))" and "c \<in> set cs"
  shows "P c"
proof -
  let ?ns = "foldl add_node [] elements"
  let ?tw = "detectAndReclassifyAdjacentPaths reclassify
               (List.map_filter (collect_way ?ns) elements) ?ns"
  let ?adj = "snd (foldl (process_way ?ns) ([], []) ?tw)"
  have "all_connections P (snd ([] :: (string \<times> OSMWay) list, [] :: adjacency))"
    by (simp add: all_connections_def)
  from foldl_process_way_all_connections [OF this assms(1)]
  have all: "all_connections P ?adj" .
  have ok: "adj_ok ?ns ?adj"
    by (rule foldl_process_way_adj_ok) (simp add: adj_ok_empty)
  from assms(2) have "(k, cs) \<in> set ?adj" by (simp add: buildGraph_third_pass)
  with ok have "map_of ?adj k = Some cs" unfolding adj_ok_def by simp
  with all assms(3) show ?thesis unfolding all_connections_def by blast
qed

text \<open>Every way of the second pass is at least one metre long, whatever its tags become.\<close>

lemma collect_way_length:
  "collect_way ns element = Some way \<Longrightarrow> w_length way = Some len \<Longrightarrow> 1 \<le> len"
  by (auto simp: collect_way_def Let_def split: option.splits if_splits)

lemma tempWays_length:
  assumes "way \<in> set (detectAndReclassifyAdjacentPaths reclassify
                          (List.map_filter (collect_way ns) elements) ns)"
    and "w_length way = Some len"
  shows "1 \<le> len"
proof -
  from assms(1) obtain way0 element where "collect_way ns element = Some way0"
    "way = way0\<lparr>w_tags := reclassify (List.map_filter (collect_way ns) elements) ns way0\<rparr>"
    by (auto simp: detectAndReclassifyAdjacentPaths_def dest: map_filter_mem)
  with assms(2) collect_way_length [of ns element way0 len] show ?thesis by simp
qed

lemma segment_weight_bounds:
  fixes len sc d :: real
  assumes "1 \<le> len" "1 \<le> sc" "0 \<le> d"
  shows "0 \<le> (if len / sc = 0 then d else len / sc) * (d / len) \<and>
         ((if len / sc = 0 then d else len / sc) * (d / len) = 0 \<longleftrightarrow> d = 0) \<and>
         (if len / sc = 0 then d else len / sc) * (d / len) \<le> d * (1 + 1 / 10 ^ 15)"
proof -
  from assms have nz: "len / sc \<noteq> 0" by simp
  from assms have eq: "(len / sc) * (d / len) = d / sc" by simp
  from assms have "d / sc \<le> d / 1" by (intro divide_left_mono) auto
  then have "d / sc \<le> d" by simp
  also from assms have "d \<le> d * (1 + 1 / 10 ^ 15)" by (simp add: algebra_simps)
  finally have "d / sc \<le> d * (1 + 1 / 10 ^ 15)" .
  moreover from assms have "0 \<le> d / sc" by simp
  moreover from assms have "d / sc = 0 \<longleftrightarrow> d = 0" by simp
  ultimately show ?thesis using nz eq by simp
qed

text \<open>
  C3 (as amended): for a regional snapshot, every connection of the built graph has a
  fun-weight that is not negative, that is zero exactly when the length of the connection
  is zero, and that is at most the length of the connection up to the rounding of the
  floating-point operations that compute it (a relative \<open>10\<^sup>-\<^sup>1\<^sup>5\<close>). The fun-weight of a
  connection is the fun-weight of its way, length over score with a score of at least 1,
  times the share of the segment in the length of the way; in exact arithmetic that is
  the length of the segment over the score. The computed product can exceed the segment
  length in the last digit when the score is 1, which the bound allows for.
\<close>

theorem buildGraph_edge_weights:
  assumes "regional (foldl add_node [] elements)"
  shows "\<forall>(k, cs) \<in> set (adjacency (buildGraph reclassify elements)). \<forall>c \<in> set cs.
     0 \<le> fun_weight c \<and> (fun_weight c = 0 \<longleftrightarrow> distance c = 0) \<and>
     fun_weight c \<le> distance c * (1 + 1 / 10 ^ 15)"
proof -
  let ?P = "\<lambda>c. 0 \<le> fun_weight c \<and> (fun_weight c = 0 \<longleftrightarrow> distance c = 0) \<and>
                 fun_weight c \<le> distance c * (1 + 1 / 10 ^ 15)"
  have w: "\<forall>way \<in> set (detectAndReclassifyAdjacentPaths reclassify
                          (List.map_filter (collect_way (foldl add_node [] elements)) elements)
                          (foldl add_node [] elements)).
             \<forall>len c. w_length way = Some len \<longrightarrow> wayId c = w_id way \<longrightarrow> 0 \<le> distance c \<longrightarrow>
               fun_weight c = (if calculateFunWeight way len = 0 then distance c
                               else calculateFunWeight way len) * (distance c / len) \<longrightarrow> ?P c"
  proof (intro ballI allI impI)
    fix way len c
    assume way: "way \<in> set (detectAndReclassifyAdjacentPaths reclassify
                          (List.map_filter (collect_way (foldl add_node [] elements)) elements)
                          (foldl add_node [] elements))"
      and len: "w_length way = Some len" and d: "0 \<le> distance c"
      and fw: "fun_weight c = (if calculateFunWeight way len = 0 then distance c
                               else calculateFunWeight way len) * (distance c / len)"
    from way len have "1 \<le> len" by (rule tempWays_length)
    from segment_weight_bounds [OF this interest_score_ge_1 d, of "w_tags way"]
    show "?P c" unfolding fw calculateFunWeight_eq .
  qed
  have "?P c" if "(k, cs) \<in> set (adjacency (buildGraph reclassify elements))" "c \<in> set cs"
    for k cs c
    using w that by (rule buildGraph_all_connections)
  then show ?thesis by blast
qed

subsection \<open>The graph of the small snapshot\<close>

lemma toString_examples:
  "toString 1 = ''1''" "toString 2 = ''2''" "toString 3 = ''3''" "toString 10 = ''10''"
  by (simp_all add: toString_def nat_digits.simps digit_char_def)

lemma example_nodes:
  "foldl add_node [] example_elements =
     [(''1'', \<lparr>n_id = ''1'', n_lat = 0, n_lng = 0, n_tags = Map.empty\<rparr>),
      (''2'', \<lparr>n_id = ''2'', n_lat = 0, n_lng = 180, n_tags = Map.empty\<rparr>),
      (''3'', \<lparr>n_id = ''3'', n_lat = 0, n_lng = 180, n_tags = Map.empty\<rparr>)]"
  by (simp add: example_elements_def add_node_def toString_examples)

lemma earth_half: "1 \<le> 6371000 * pi"
  using pi_ge_two by simp

lemma example_distances:
  "calculateDistance \<lparr>lat = 0, lng = 0\<rparr> \<lparr>lat = 0, lng = 180\<rparr> = 6371000 * pi"
  "calculateDistance \<lparr>lat = 0, lng = 180\<rparr> \<lparr>lat = 0, lng = 0\<rparr> = 6371000 * pi"
  "calculateDistance \<lparr>lat = 0, lng = 180\<rparr> \<lparr>lat = 0, lng = 180\<rparr> = 0"
  by (simp_all add: calculateDistance_def haversine_a_def atan2_def)



lemma example_way_length:
  "way_length [(''1'', \<lparr>n_id = ''1'', n_lat = 0, n_lng = 0, n_tags = Map.empty\<rparr>),
      (''2'', \<lparr>n_id = ''2'', n_lat = 0, n_lng = 180, n_tags = Map.empty\<rparr>),
      (''3'', \<lparr>n_id = ''3'', n_lat = 0, n_lng = 180, n_tags = Map.empty\<rparr>)] [''1'', ''2'', ''3'']
   = 6371000 * pi"
  by (simp add: node_coord_def example_distances)


lemma example_collect_way:
  "collect_way [(''1'', \<lparr>n_id = ''1'', n_lat = 0, n_lng = 0, n_tags = Map.empty\<rparr>),
      (''2'', \<lparr>n_id = ''2'', n_lat = 0, n_lng = 180, n_tags = Map.empty\<rparr>),
      (''3'', \<lparr>n_id = ''3'', n_lat = 0, n_lng = 180, n_tags = Map.empty\<rparr>)]
     \<lparr>e_id = 10, e_type = ''way'', e_lat = None, e_lon = None, e_nodes = Some [1, 2, 3],
        e_tags = Some [''highway'' \<mapsto> ''footway'']\<rparr>
   = Some \<lparr>w_id = ''10'', w_nodes = [''1'', ''2'', ''3''], w_tags = [''highway'' \<mapsto> ''footway''],
       w_length = Some (6371000 * pi), w_fun_weight = None\<rparr>"
  using earth_half
  by (simp add: collect_way_def toString_examples Let_def node_coord_def example_distances)


lemma collect_way_no_nodes: "e_nodes element = None \<Longrightarrow> collect_way ns element = None"
  by (simp add: collect_way_def)

lemma example_ways:
  "List.map_filter (collect_way (foldl add_node [] example_elements)) example_elements =
     [\<lparr>w_id = ''10'', w_nodes = [''1'', ''2'', ''3''], w_tags = [''highway'' \<mapsto> ''footway''],
       w_length = Some (6371000 * pi), w_fun_weight = None\<rparr>]"
  unfolding example_nodes
  by (simp add: example_elements_def collect_way_no_nodes example_collect_way)

lemma example_fun_weight:
  "calculateFunWeight \<lparr>w_id = ''10'', w_nodes = [''1'', ''2'', ''3''],
       w_tags = [''highway'' \<mapsto> ''footway''],
       w_length = Some (6371000 * pi), w_fun_weight = None\<rparr> len = len / 3"
  by (simp add: calculateFunWeight_eq interest_score_def bonus_def walking_surface_def
      FUN_HIGHWAYS_def is_park_def is_viewpoint_or_attraction_def is_forest_or_wood_def
      is_water_feature_def is_historic_def is_scenic_def name_includes_def)


lemma example_reclassified:
  "detectAndReclassifyAdjacentPaths keep_tags
     [\<lparr>w_id = ''10'', w_nodes = [''1'', ''2'', ''3''], w_tags = [''highway'' \<mapsto> ''footway''],
       w_length = Some (6371000 * pi), w_fun_weight = None\<rparr>] ns
   = [\<lparr>w_id = ''10'', w_nodes = [''1'', ''2'', ''3''], w_tags = [''highway'' \<mapsto> ''footway''],
       w_length = Some (6371000 * pi), w_fun_weight = None\<rparr>]"
  by (simp add: detectAndReclassifyAdjacentPaths_def keep_tags_def)

lemma example_segments:
  "add_segments [(''1'', \<lparr>n_id = ''1'', n_lat = 0, n_lng = 0, n_tags = Map.empty\<rparr>),
      (''2'', \<lparr>n_id = ''2'', n_lat = 0, n_lng = 180, n_tags = Map.empty\<rparr>),
      (''3'', \<lparr>n_id = ''3'', n_lat = 0, n_lng = 180, n_tags = Map.empty\<rparr>)]
     ''10'' (6371000 * pi / 3) (6371000 * pi) [''1'', ''2'', ''3''] []
   = [(''1'', [\<lparr>nodeId = ''2'', wayId = ''10'', distance = 6371000 * pi,
                 fun_weight = 6371000 * pi / 3\<rparr>]),
      (''2'', [\<lparr>nodeId = ''1'', wayId = ''10'', distance = 6371000 * pi,
                 fun_weight = 6371000 * pi / 3\<rparr>,
               \<lparr>nodeId = ''3'', wayId = ''10'', distance = 0, fun_weight = 0\<rparr>]),
      (''3'', [\<lparr>nodeId = ''2'', wayId = ''10'', distance = 0, fun_weight = 0\<rparr>])]"
  by (simp add: add_segment_def Let_def node_coord_def example_distances
      ensure_key_def push_connection_def)


lemma example_third_pass:
  "snd (foldl (process_way [(''1'', \<lparr>n_id = ''1'', n_lat = 0, n_lng = 0, n_tags = Map.empty\<rparr>),
      (''2'', \<lparr>n_id = ''2'', n_lat = 0, n_lng = 180, n_tags = Map.empty\<rparr>),
      (''3'', \<lparr>n_id = ''3'', n_lat = 0, n_lng = 180, n_tags = Map.empty\<rparr>)]) ([], [])
     [\<lparr>w_id = ''10'', w_nodes = [''1'', ''2'', ''3''], w_tags = [''highway'' \<mapsto> ''footway''],
       w_length = Some (6371000 * pi), w_fun_weight = None\<rparr>])
   = [(''1'', [\<lparr>nodeId = ''2'', wayId = ''10'', distance = 6371000 * pi,
                 fun_weight = 6371000 * pi / 3\<rparr>]),
      (''2'', [\<lparr>nodeId = ''1'', wayId = ''10'', distance = 6371000 * pi,
                 fun_weight = 6371000 * pi / 3\<rparr>,
               \<lparr>nodeId = ''3'', wayId = ''10'', distance = 0, fun_weight = 0\<rparr>]),
      (''3'', [\<lparr>nodeId = ''2'', wayId = ''10'', distance = 0, fun_weight = 0\<rparr>])]"
  by (simp add: process_way_def Let_def example_fun_weight example_segments
      del: add_segments.simps)

lemma example_prune:
  "foldl (connect_node [(''1'', \<lparr>n_id = ''1'', n_lat = 0, n_lng = 0, n_tags = Map.empty\<rparr>),
      (''2'', \<lparr>n_id = ''2'', n_lat = 0, n_lng = 180, n_tags = Map.empty\<rparr>),
      (''3'', \<lparr>n_id = ''3'', n_lat = 0, n_lng = 180, n_tags = Map.empty\<rparr>)]) []
     [(''1'', [\<lparr>nodeId = ''2'', wayId = ''10'', distance = 6371000 * pi,
                 fun_weight = 6371000 * pi / 3\<rparr>]),
      (''2'', [\<lparr>nodeId = ''1'', wayId = ''10'', distance = 6371000 * pi,
                 fun_weight = 6371000 * pi / 3\<rparr>,
               \<lparr>nodeId = ''3'', wayId = ''10'', distance = 0, fun_weight = 0\<rparr>]),
      (''3'', [\<lparr>nodeId = ''2'', wayId = ''10'', distance = 0, fun_weight = 0\<rparr>])]
   = [(''1'', \<lparr>n_id = ''1'', n_lat = 0, n_lng = 0, n_tags = Map.empty\<rparr>),
      (''2'', \<lparr>n_id = ''2'', n_lat = 0, n_lng = 180, n_tags = Map.empty\<rparr>),
      (''3'', \<lparr>n_id = ''3'', n_lat = 0, n_lng = 180, n_tags = Map.empty\<rparr>)]"
  by (simp add: connect_node_def)

lemma example_keep:
  "foldl (keep_connections [(''1'', \<lparr>n_id = ''1'', n_lat = 0, n_lng = 0, n_tags = Map.empty\<rparr>),
      (''2'', \<lparr>n_id = ''2'', n_lat = 0, n_lng = 180, n_tags = Map.empty\<rparr>),
      (''3'', \<lparr>n_id = ''3'', n_lat = 0, n_lng = 180, n_tags = Map.empty\<rparr>)]) []
     [(''1'', [\<lparr>nodeId = ''2'', wayId = ''10'', distance = 6371000 * pi,
                 fun_weight = 6371000 * pi / 3\<rparr>]),
      (''2'', [\<lparr>nodeId = ''1'', wayId = ''10'', distance = 6371000 * pi,
                 fun_weight = 6371000 * pi / 3\<rparr>,
               \<lparr>nodeId = ''3'', wayId = ''10'', distance = 0, fun_weight = 0\<rparr>]),
      (''3'', [\<lparr>nodeId = ''2'', wayId = ''10'', distance = 0, fun_weight = 0\<rparr>])]
   = [(''1'', [\<lparr>nodeId = ''2'', wayId = ''10'', distance = 6371000 * pi,
                 fun_weight = 6371000 * pi / 3\<rparr>]),
      (''2'', [\<lparr>nodeId = ''1'', wayId = ''10'', distance = 6371000 * pi,
                 fun_weight = 6371000 * pi / 3\<rparr>,
               \<lparr>nodeId = ''3'', wayId = ''10'', distance = 0, fun_weight = 0\<rparr>]),
      (''3'', [\<lparr>nodeId = ''2'', wayId = ''10'', distance = 0, fun_weight = 0\<rparr>])]"
  by (simp add: keep_connections_def)


lemma example_graph:
  "adjacency (buildGraph keep_tags example_elements) =
     [(''1'', [\<lparr>nodeId = ''2'', wayId = ''10'', distance = 6371000 * pi,
                 fun_weight = 6371000 * pi / 3\<rparr>]),
      (''2'', [\<lparr>nodeId = ''1'', wayId = ''10'', distance = 6371000 * pi,
                 fun_weight = 6371000 * pi / 3\<rparr>,
               \<lparr>nodeId = ''3'', wayId = ''10'', distance = 0, fun_weight = 0\<rparr>]),
      (''3'', [\<lparr>nodeId = ''2'', wayId = ''10'', distance = 0, fun_weight = 0\<rparr>])]"
  "nodes (buildGraph keep_tags example_elements) =
     [(''1'', \<lparr>n_id = ''1'', n_lat = 0, n_lng = 0, n_tags = Map.empty\<rparr>),
      (''2'', \<lparr>n_id = ''2'', n_lat = 0, n_lng = 180, n_tags = Map.empty\<rparr>),
      (''3'', \<lparr>n_id = ''3'', n_lat = 0, n_lng = 180, n_tags = Map.empty\<rparr>)]"
  unfolding buildGraph_def Let_def split_beta
  unfolding example_ways
  unfolding example_nodes example_reclassified
  unfolding example_third_pass
  unfolding example_prune
  unfolding example_keep
  by simp_all

subsection \<open>The graph of the regional snapshot\<close>

lemma quarter_haversine:
  "haversine_a \<lparr>lat = 0, lng = 0\<rparr> \<lparr>lat = 0, lng = 90\<rparr> = 1 / 2"
  "haversine_a \<lparr>lat = 0, lng = 90\<rparr> \<lparr>lat = 0, lng = 0\<rparr> = 1 / 2"
  "haversine_a \<lparr>lat = 90, lng = 0\<rparr> \<lparr>lat = 0, lng = 0\<rparr> = 1 / 2"
  "haversine_a \<lparr>lat = 90, lng = 0\<rparr> \<lparr>lat = 0, lng = 90\<rparr> = 1 / 2"
  by (simp_all add: haversine_a_def sin_45 power_divide flip: power2_eq_square)

lemma haversine_same: "haversine_a p p = 0"
  by (simp add: haversine_a_def)

lemma earth_quarter: "1 \<le> 3185500 * pi" "5 < 3185500 * pi" "0 < 3185500 * pi"
  using pi_ge_two by simp_all

lemma quarter_distances:
  "calculateDistance \<lparr>lat = 0, lng = 0\<rparr> \<lparr>lat = 0, lng = 90\<rparr> = 3185500 * pi"
  "calculateDistance \<lparr>lat = 0, lng = 90\<rparr> \<lparr>lat = 0, lng = 0\<rparr> = 3185500 * pi"
  "calculateDistance \<lparr>lat = 90, lng = 0\<rparr> \<lparr>lat = 0, lng = 0\<rparr> = 3185500 * pi"
  "calculateDistance \<lparr>lat = 90, lng = 0\<rparr> \<lparr>lat = 0, lng = 90\<rparr> = 3185500 * pi"
  "calculateDistance \<lparr>lat = 0, lng = 90\<rparr> \<lparr>lat = 0, lng = 90\<rparr> = 0"
  "calculateDistance \<lparr>lat = 0, lng = 0\<rparr> \<lparr>lat = 0, lng = 0\<rparr> = 0"
  unfolding calculateDistance_def Let_def quarter_haversine haversine_same
  by (simp_all add: atan2_def arctan_one)

lemma quarter_nodes:
  "foldl add_node [] quarter_elements =
     [(''1'', \<lparr>n_id = ''1'', n_lat = 0, n_lng = 0, n_tags = Map.empty\<rparr>),
      (''2'', \<lparr>n_id = ''2'', n_lat = 0, n_lng = 90, n_tags = Map.empty\<rparr>),
      (''3'', \<lparr>n_id = ''3'', n_lat = 0, n_lng = 90, n_tags = Map.empty\<rparr>)]"
  by (simp add: quarter_elements_def add_node_def toString_examples)

lemma quarter_way_length:
  "way_length [(''1'', \<lparr>n_id = ''1'', n_lat = 0, n_lng = 0, n_tags = Map.empty\<rparr>),
      (''2'', \<lparr>n_id = ''2'', n_lat = 0, n_lng = 90, n_tags = Map.empty\<rparr>),
      (''3'', \<lparr>n_id = ''3'', n_lat = 0, n_lng = 90, n_tags = Map.empty\<rparr>)] [''1'', ''2'', ''3'']
   = 3185500 * pi"
  by (simp add: node_coord_def quarter_distances)

lemma quarter_collect_way:
  "collect_way [(''1'', \<lparr>n_id = ''1'', n_lat = 0, n_lng = 0, n_tags = Map.empty\<rparr>),
      (''2'', \<lparr>n_id = ''2'', n_lat = 0, n_lng = 90, n_tags = Map.empty\<rparr>),
      (''3'', \<lparr>n_id = ''3'', n_lat = 0, n_lng = 90, n_tags = Map.empty\<rparr>)]
     \<lparr>e_id = 10, e_type = ''way'', e_lat = None, e_lon = None, e_nodes = Some [1, 2, 3],
        e_tags = Some [''highway'' \<mapsto> ''footway'']\<rparr>
   = Some \<lparr>w_id = ''10'', w_nodes = [''1'', ''2'', ''3''], w_tags = [''highway'' \<mapsto> ''footway''],
       w_length = Some (3185500 * pi), w_fun_weight = None\<rparr>"
  using earth_quarter
  by (simp add: collect_way_def toString_examples Let_def node_coord_def quarter_distances)

lemma quarter_ways:
  "List.map_filter (collect_way (foldl add_node [] quarter_elements)) quarter_elements =
     [\<lparr>w_id = ''10'', w_nodes = [''1'', ''2'', ''3''], w_tags = [''highway'' \<mapsto> ''footway''],
       w_length = Some (3185500 * pi), w_fun_weight = None\<rparr>]"
  unfolding quarter_nodes
  by (simp add: quarter_elements_def collect_way_no_nodes quarter_collect_way)

lemma quarter_fun_weight:
  "calculateFunWeight \<lparr>w_id = ''10'', w_nodes = [''1'', ''2'', ''3''],
       w_tags = [''highway'' \<mapsto> ''footway''],
       w_length = Some (3185500 * pi), w_fun_weight = None\<rparr> len = len / 3"
  by (simp add: calculateFunWeight_eq interest_score_def bonus_def walking_surface_def
      FUN_HIGHWAYS_def is_park_def is_viewpoint_or_attraction_def is_forest_or_wood_def
      is_water_feature_def is_historic_def is_scenic_def name_includes_def)

lemma quarter_reclassified:
  "detectAndReclassifyAdjacentPaths keep_tags
     [\<lparr>w_id = ''10'', w_nodes = [''1'', ''2'', ''3''], w_tags = [''highway'' \<mapsto> ''footway''],
       w_length = Some (3185500 * pi), w_fun_weight = None\<rparr>] ns
   = [\<lparr>w_id = ''10'', w_nodes = [''1'', ''2'', ''3''], w_tags = [''highway'' \<mapsto> ''footway''],
       w_length = Some (3185500 * pi), w_fun_weight = None\<rparr>]"
  by (simp add: detectAndReclassifyAdjacentPaths_def keep_tags_def)

lemma quarter_segments:
  "add_segments [(''1'', \<lparr>n_id = ''1'', n_lat = 0, n_lng = 0, n_tags = Map.empty\<rparr>),
      (''2'', \<lparr>n_id = ''2'', n_lat = 0, n_lng = 90, n_tags = Map.empty\<rparr>),
      (''3'', \<lparr>n_id = ''3'', n_lat = 0, n_lng = 90, n_tags = Map.empty\<rparr>)]
     ''10'' (3185500 * pi / 3) (3185500 * pi) [''1'', ''2'', ''3''] []
   = [(''1'', [\<lparr>nodeId = ''2'', wayId = ''10'', distance = 3185500 * pi,
                 fun_weight = 3185500 * pi / 3\<rparr>]),
      (''2'', [\<lparr>nodeId = ''1'', wayId = ''10'', distance = 3185500 * pi,
                 fun_weight = 3185500 * pi / 3\<rparr>,
               \<lparr>nodeId = ''3'', wayId = ''10'', distance = 0, fun_weight = 0\<rparr>]),
      (''3'', [\<lparr>nodeId = ''2'', wayId = ''10'', distance = 0, fun_weight = 0\<rparr>])]"
  by (simp add: add_segment_def Let_def node_coord_def quarter_distances
      ensure_key_def push_connection_def)

lemma quarter_third_pass:
  "snd (foldl (process_way [(''1'', \<lparr>n_id = ''1'', n_lat = 0, n_lng = 0, n_tags = Map.empty\<rparr>),
      (''2'', \<lparr>n_id = ''2'', n_lat = 0, n_lng = 90, n_tags = Map.empty\<rparr>),
      (''3'', \<lparr>n_id = ''3'', n_lat = 0, n_lng = 90, n_tags = Map.empty\<rparr>)]) ([], [])
     [\<lparr>w_id = ''10'', w_nodes = [''1'', ''2'', ''3''], w_tags = [''highway'' \<mapsto> ''footway''],
       w_length = Some (3185500 * pi), w_fun_weight = None\<rparr>])
   = [(''1'', [\<lparr>nodeId = ''2'', wayId = ''10'', distance = 3185500 * pi,
                 fun_weight = 3185500 * pi / 3\<rparr>]),
      (''2'', [\<lparr>nodeId = ''1'', wayId = ''10'', distance = 3185500 * pi,
                 fun_weight = 3185500 * pi / 3\<rparr>,
               \<lparr>nodeId = ''3'', wayId = ''10'', distance = 0, fun_weight = 0\<rparr>]),
      (''3'', [\<lparr>nodeId = ''2'', wayId = ''10'', distance = 0, fun_weight = 0\<rparr>])]"
  by (simp add: process_way_def Let_def quarter_fun_weight quarter_segments
      del: add_segments.simps)

lemma quarter_prune:
  "foldl (connect_node [(''1'', \<lparr>n_id = ''1'', n_lat = 0, n_lng = 0, n_tags = Map.empty\<rparr>),
      (''2'', \<lparr>n_id = ''2'', n_lat = 0, n_lng = 90, n_tags = Map.empty\<rparr>),
      (''3'', \<lparr>n_id = ''3'', n_lat = 0, n_lng = 90, n_tags = Map.empty\<rparr>)]) []
     [(''1'', [\<lparr>nodeId = ''2'', wayId = ''10'', distance = 3185500 * pi,
                 fun_weight = 3185500 * pi / 3\<rparr>]),
      (''2'', [\<lparr>nodeId = ''1'', wayId = ''10'', distance = 3185500 * pi,
                 fun_weight = 3185500 * pi / 3\<rparr>,
               \<lparr>nodeId = ''3'', wayId = ''10'', distance = 0, fun_weight = 0\<rparr>]),
      (''3'', [\<lparr>nodeId = ''2'', wayId = ''10'', distance = 0, fun_weight = 0\<rparr>])]
   = [(''1'', \<lparr>n_id = ''1'', n_lat = 0, n_lng = 0, n_tags = Map.empty\<rparr>),
      (''2'', \<lparr>n_id = ''2'', n_lat = 0, n_lng = 90, n_tags = Map.empty\<rparr>),
      (''3'', \<lparr>n_id = ''3'', n_lat = 0, n_lng = 90, n_tags = Map.empty\<rparr>)]"
  by (simp add: connect_node_def)

lemma quarter_keep:
  "foldl (keep_connections [(''1'', \<lparr>n_id = ''1'', n_lat = 0, n_lng = 0, n_tags = Map.empty\<rparr>),
      (''2'', \<lparr>n_id = ''2'', n_lat = 0, n_lng = 90, n_tags = Map.empty\<rparr>),
      (''3'', \<lparr>n_id = ''3'', n_lat = 0, n_lng = 90, n_tags = Map.empty\<rparr>)]) []
     [(''1'', [\<lparr>nodeId = ''2'', wayId = ''10'', distance = 3185500 * pi,
                 fun_weight = 3185500 * pi / 3\<rparr>]),
      (''2'', [\<lparr>nodeId = ''1'', wayId = ''10'', distance = 3185500 * pi,
                 fun_weight = 3185500 * pi / 3\<rparr>,
               \<lparr>nodeId = ''3'', wayId = ''10'', distance = 0, fun_weight = 0\<rparr>]),
      (''3'', [\<lparr>nodeId = ''2'', wayId = ''10'', distance = 0, fun_weight = 0\<rparr>])]
   = [(''1'', [\<lparr>nodeId = ''2'', wayId = ''10'', distance = 3185500 * pi,
                 fun_weight = 3185500 * pi / 3\<rparr>]),
      (''2'', [\<lparr>nodeId = ''1'', wayId = ''10'', distance = 3185500 * pi,
                 fun_weight = 3185500 * pi / 3\<rparr>,
               \<lparr>nodeId = ''3'', wayId = ''10'', distance = 0, fun_weight = 0\<rparr>]),
      (''3'', [\<lparr>nodeId = ''2'', wayId = ''10'', distance = 0, fun_weight = 0\<rparr>])]"
  by (simp add: keep_connections_def)

lemma quarter_graph:
  "adjacency (buildGraph keep_tags quarter_elements) =
     [(''1'', [\<lparr>nodeId = ''2'', wayId = ''10'', distance = 3185500 * pi,
                 fun_weight = 3185500 * pi / 3\<rparr>]),
      (''2'', [\<lparr>nodeId = ''1'', wayId = ''10'', distance = 3185500 * pi,
                 fun_weight = 3185500 * pi / 3\<rparr>,
               \<lparr>nodeId = ''3'', wayId = ''10'', distance = 0, fun_weight = 0\<rparr>]),
      (''3'', [\<lparr>nodeId = ''2'', wayId = ''10'', distance = 0, fun_weight = 0\<rparr>])]"
  "nodes (buildGraph keep_tags quarter_elements) =
     [(''1'', \<lparr>n_id = ''1'', n_lat = 0, n_lng = 0, n_tags = Map.empty\<rparr>),
      (''2'', \<lparr>n_id = ''2'', n_lat = 0, n_lng = 90, n_tags = Map.empty\<rparr>),
      (''3'', \<lparr>n_id = ''3'', n_lat = 0, n_lng = 90, n_tags = Map.empty\<rparr>)]"
  unfolding buildGraph_def Let_def split_beta
  unfolding quarter_ways
  unfolding quarter_nodes quarter_reclassified
  unfolding quarter_third_pass
  unfolding quarter_prune
  unfolding quarter_keep
  by simp_all

subsection \<open>Built graphs on the small snapshot\<close>

theorem buildGraph_connected_witness:
  "(''1'', \<lparr>n_id = ''1'', n_lat = 0, n_lng = 0, n_tags = Map.empty\<rparr>)
     \<in> set (nodes (buildGraph keep_tags example_elements)) \<and>
   (\<exists>cs. map_of (adjacency (buildGraph keep_tags example_elements)) ''1'' = Some cs \<and> cs \<noteq> []) \<and>
   (''3'', [\<lparr>nodeId = ''2'', wayId = ''10'', distance = 0, fun_weight = 0\<rparr>])
     \<in> set (adjacency (buildGraph keep_tags example_elements)) \<and>
   map_of (nodes (buildGraph keep_tags example_elements)) ''2'' \<noteq> None"
proof -
  let ?g = "buildGraph keep_tags example_elements"
  have n: "(''1'', \<lparr>n_id = ''1'', n_lat = 0, n_lng = 0, n_tags = Map.empty\<rparr>) \<in> set (nodes ?g)"
    by (simp add: example_graph)
  have a: "(''3'', [\<lparr>nodeId = ''2'', wayId = ''10'', distance = 0, fun_weight = 0\<rparr>])
             \<in> set (adjacency ?g)"
    by (simp add: example_graph)
  from buildGraph_connected [of keep_tags example_elements] n
  have "\<exists>cs. map_of (adjacency ?g) ''1'' = Some cs \<and> cs \<noteq> []"
    by fastforce
  moreover from buildGraph_connected [of keep_tags example_elements] a
  have "map_of (nodes ?g) (nodeId \<lparr>nodeId = ''2'', wayId = ''10'', distance = 0, fun_weight = 0\<rparr>)
          \<noteq> None"
    by fastforce
  ultimately show ?thesis using n a by simp
qed

theorem buildGraph_edge_weights_witness:
  "regional (foldl add_node [] quarter_elements) \<and>
   (''2'', [\<lparr>nodeId = ''1'', wayId = ''10'', distance = 3185500 * pi,
               fun_weight = 3185500 * pi / 3\<rparr>,
            \<lparr>nodeId = ''3'', wayId = ''10'', distance = 0, fun_weight = 0\<rparr>])
     \<in> set (adjacency (buildGraph keep_tags quarter_elements)) \<and>
   0 \<le> fun_weight \<lparr>nodeId = ''1'', wayId = ''10'', distance = 3185500 * pi,
                     fun_weight = 3185500 * pi / 3\<rparr> \<and>
   fun_weight \<lparr>nodeId = ''1'', wayId = ''10'', distance = 3185500 * pi,
               fun_weight = 3185500 * pi / 3\<rparr> \<noteq> 0 \<and>
   fun_weight \<lparr>nodeId = ''1'', wayId = ''10'', distance = 3185500 * pi,
               fun_weight = 3185500 * pi / 3\<rparr>
     \<le> distance \<lparr>nodeId = ''1'', wayId = ''10'', distance = 3185500 * pi,
                   fun_weight = 3185500 * pi / 3\<rparr> * (1 + 1 / 10 ^ 15) \<and>
   fun_weight \<lparr>nodeId = ''3'', wayId = ''10'', distance = 0, fun_weight = 0\<rparr> = 0"
proof -
  let ?g = "buildGraph keep_tags quarter_elements"
  let ?c1 = "\<lparr>nodeId = ''1'', wayId = ''10'', distance = 3185500 * pi,
              fun_weight = 3185500 * pi / 3\<rparr>"
  let ?c2 = "\<lparr>nodeId = ''3'', wayId = ''10'', distance = 0, fun_weight = 0\<rparr>"
  have r: "regional (foldl add_node [] quarter_elements)"
    unfolding quarter_nodes
    by (simp add: regional_def node_coord_def quarter_haversine haversine_same)
  have a: "(''2'', [?c1, ?c2]) \<in> set (adjacency ?g)"
    by (simp add: quarter_graph)
  from buildGraph_edge_weights [OF r, of keep_tags] a
  have b: "\<forall>c \<in> set [?c1, ?c2]. 0 \<le> fun_weight c \<and> (fun_weight c = 0 \<longleftrightarrow> distance c = 0) \<and>
      fun_weight c \<le> distance c * (1 + 1 / 10 ^ 15)"
    by fastforce
  have d: "distance ?c1 \<noteq> 0" "distance ?c2 = 0" using earth_quarter(3) by simp_all
  have m: "?c1 \<in> set [?c1, ?c2]" "?c2 \<in> set [?c1, ?c2]" by simp_all
  from bspec [OF b m(1)] d(1) have "0 \<le> fun_weight ?c1" "fun_weight ?c1 \<noteq> 0"
    "fun_weight ?c1 \<le> distance ?c1 * (1 + 1 / 10 ^ 15)"
    by blast+
  moreover from bspec [OF b m(2)] d(2) have "fun_weight ?c2 = 0" by blast
  ultimately show ?thesis using r a by blast
qed

text \<open>
  C3 as stated fails: the segment between the two nodes at the same place has length 0,
  and its fun-weight is 0, not a positive number.
\<close>

theorem buildGraph_edge_weights_counterexample:
  "map_of (adjacency (buildGraph keep_tags example_elements)) ''3''
     = Some [\<lparr>nodeId = ''2'', wayId = ''10'', distance = 0, fun_weight = 0\<rparr>] \<and>
   \<not> (\<forall>(k, cs) \<in> set (adjacency (buildGraph keep_tags example_elements)). \<forall>c \<in> set cs.
         0 < fun_weight c \<and> fun_weight c \<le> distance c)"
  by (simp add: example_graph)

subsection \<open>Adjacent-path reclassification\<close>














subsection \<open>The parallel-path fixture\<close>









end
